theory Spec2Isabelle
  imports Complex_Main
begin

section \<open>Components (include/Components.h)\<close>

text \<open>
  The simulation keeps its state as parallel attribute arrays (structure of arrays). Each
  C++ struct of vectors is a record of lists, the enum is a datatype, and every system is a
  function from state to state. The scalar type of the arrays is a parameter \<open>'f\<close>: the
  systems compute on \<open>real\<close> (idealised arithmetic: rounding of the 32-bit floats is
  not modelled), the validator reads \<open>cfloat\<close>, which adds the special values it
  tests for.
\<close>

type_synonym EntityID = nat

definition INVALID_ENTITY :: EntityID where
  "INVALID_ENTITY = 4294967295"

record 'f TransformComponents =
  position_x :: "'f list"
  position_y :: "'f list"
  position_z :: "'f list"
  velocity_x :: "'f list"
  velocity_y :: "'f list"
  velocity_z :: "'f list"
  orientation :: "'f list"

record 'f PerceptionComponents =
  view_range :: "'f list"
  view_angle :: "'f list"
  visible_entity_count :: "nat list"

record 'f NeedsComponents =
  hunger :: "'f list"
  energy :: "'f list"
  safety :: "'f list"
  curiosity :: "'f list"

datatype ActionType = IDLE | MOVE_TO_TARGET | EAT | SLEEP | FLEE | ATTACK | EXPLORE | COUNT

record 'f ActionComponents =
  current_action :: "ActionType list"
  action_utility :: "'f list"
  target_entity :: "EntityID list"
  target_x :: "'f list"
  target_y :: "'f list"
  target_z :: "'f list"

record 'f HealthComponents =
  health :: "'f list"
  max_health :: "'f list"
  armor_type :: "int list"
  is_alive :: "bool list"

text \<open>
  \<open>SpatialGrid::cells\<close> is a fixed \<open>GRID_SIZE \<times> GRID_SIZE\<close> array of buckets; it is read and
  written only at indices that passed the range guard, so it is a function of the two cell
  indices.
\<close>

record SpatialGrid =
  cells :: "int \<Rightarrow> int \<Rightarrow> EntityID list"

record StimulusBuffer =
  visible_entities :: "EntityID list list"

record 'f GameState =
  entity_count :: nat
  transforms :: "'f TransformComponents"
  perception :: "'f PerceptionComponents"
  needs :: "'f NeedsComponents"
  actions :: "'f ActionComponents"
  health :: "'f HealthComponents"
  spatial_grid :: SpatialGrid
  stimulus_buffer :: StimulusBuffer

definition GRID_SIZE :: int where
  "GRID_SIZE = 100"

definition CELL_SIZE :: real where
  "CELL_SIZE = 10"

text \<open>\<open>std::vector::resize(count, value)\<close>: cut, or pad with \<open>value\<close>.\<close>

definition resize :: "nat \<Rightarrow> 'a \<Rightarrow> 'a list \<Rightarrow> 'a list" where
  "resize count v xs = take count xs @ replicate (count - length xs) v"

definition TransformComponents_Resize ::
  "nat \<Rightarrow> real TransformComponents \<Rightarrow> real TransformComponents" where
  "TransformComponents_Resize count t =
     t\<lparr>position_x := resize count 0 (position_x t),
       position_y := resize count 0 (position_y t),
       position_z := resize count 0 (position_z t),
       velocity_x := resize count 0 (velocity_x t),
       velocity_y := resize count 0 (velocity_y t),
       velocity_z := resize count 0 (velocity_z t),
       orientation := resize count 0 (orientation t)\<rparr>"

definition PerceptionComponents_Resize ::
  "nat \<Rightarrow> real PerceptionComponents \<Rightarrow> real PerceptionComponents" where
  "PerceptionComponents_Resize count p =
     p\<lparr>view_range := resize count 0 (view_range p),
       view_angle := resize count 0 (view_angle p),
       visible_entity_count := resize count 0 (visible_entity_count p)\<rparr>"

definition NeedsComponents_Resize ::
  "nat \<Rightarrow> real NeedsComponents \<Rightarrow> real NeedsComponents" where
  "NeedsComponents_Resize count n =
     n\<lparr>hunger := resize count 0 (hunger n),
       energy := resize count 0 (energy n),
       safety := resize count 0 (safety n),
       curiosity := resize count 0 (curiosity n)\<rparr>"

definition ActionComponents_Resize ::
  "nat \<Rightarrow> real ActionComponents \<Rightarrow> real ActionComponents" where
  "ActionComponents_Resize count a =
     a\<lparr>current_action := resize count IDLE (current_action a),
       action_utility := resize count 0 (action_utility a),
       target_entity := resize count INVALID_ENTITY (target_entity a),
       target_x := resize count 0 (target_x a),
       target_y := resize count 0 (target_y a),
       target_z := resize count 0 (target_z a)\<rparr>"

definition HealthComponents_Resize ::
  "nat \<Rightarrow> real HealthComponents \<Rightarrow> real HealthComponents" where
  "HealthComponents_Resize count h =
     h\<lparr>HealthComponents.health := resize count 0 (HealthComponents.health h),
       max_health := resize count 0 (max_health h),
       armor_type := resize count 0 (armor_type h),
       is_alive := resize count True (is_alive h)\<rparr>"

definition StimulusBuffer_Resize :: "nat \<Rightarrow> StimulusBuffer \<Rightarrow> StimulusBuffer" where
  "StimulusBuffer_Resize count b =
     b\<lparr>visible_entities := resize count [] (visible_entities b)\<rparr>"

text \<open>The sizes the validator compares: each group reports the size of its first array.\<close>

definition TransformComponents_Size :: "'f TransformComponents \<Rightarrow> nat" where
  "TransformComponents_Size t = length (position_x t)"

definition PerceptionComponents_Size :: "'f PerceptionComponents \<Rightarrow> nat" where
  "PerceptionComponents_Size p = length (view_range p)"

definition NeedsComponents_Size :: "'f NeedsComponents \<Rightarrow> nat" where
  "NeedsComponents_Size n = length (hunger n)"

definition ActionComponents_Size :: "'f ActionComponents \<Rightarrow> nat" where
  "ActionComponents_Size a = length (current_action a)"

definition HealthComponents_Size :: "'f HealthComponents \<Rightarrow> nat" where
  "HealthComponents_Size h = length (HealthComponents.health h)"

text \<open>A default-constructed \<open>GameState\<close>: no entity, every vector and bucket empty.\<close>

definition GameState_default :: "real GameState" where
  "GameState_default =
     \<lparr>entity_count = 0,
      transforms = \<lparr>position_x = [], position_y = [], position_z = [],
        velocity_x = [], velocity_y = [], velocity_z = [], orientation = []\<rparr>,
      perception = \<lparr>view_range = [], view_angle = [], visible_entity_count = []\<rparr>,
      needs = \<lparr>hunger = [], energy = [], safety = [], curiosity = []\<rparr>,
      actions = \<lparr>current_action = [], action_utility = [], target_entity = [],
        target_x = [], target_y = [], target_z = []\<rparr>,
      health = \<lparr>HealthComponents.health = [], max_health = [], armor_type = [], is_alive = []\<rparr>,
      spatial_grid = \<lparr>cells = (\<lambda>x y. [])\<rparr>,
      stimulus_buffer = \<lparr>visible_entities = []\<rparr>\<rparr>"

definition GameState_Initialize :: "nat \<Rightarrow> real GameState \<Rightarrow> real GameState" where
  "GameState_Initialize count state =
     state\<lparr>entity_count := count,
       transforms := TransformComponents_Resize count (transforms state),
       perception := PerceptionComponents_Resize count (perception state),
       needs := NeedsComponents_Resize count (needs state),
       actions := ActionComponents_Resize count (actions state),
       health := HealthComponents_Resize count (health state),
       stimulus_buffer := StimulusBuffer_Resize count (stimulus_buffer state)\<rparr>"

subsection \<open>The spatial grid\<close>

text \<open>
  \<open>static_cast<int>\<close> of a float drops the fraction (rounds towards zero), and the C++
  \<open>%\<close> takes the sign of its left operand: \<open>-1 % 100\<close> is \<open>-1\<close>, not \<open>99\<close>.
\<close>

definition static_cast_int :: "real \<Rightarrow> int" where
  "static_cast_int r = (if 0 \<le> r then \<lfloor>r\<rfloor> else \<lceil>r\<rceil>)"

definition c_rem :: "int \<Rightarrow> int \<Rightarrow> int" where
  "c_rem a b = sgn a * (\<bar>a\<bar> mod \<bar>b\<bar>)"

definition SpatialGrid_Clear :: "SpatialGrid \<Rightarrow> SpatialGrid" where
  "SpatialGrid_Clear g = g\<lparr>cells := (\<lambda>x y. [])\<rparr>"

definition SpatialGrid_Insert :: "EntityID \<Rightarrow> real \<Rightarrow> real \<Rightarrow> SpatialGrid \<Rightarrow> SpatialGrid" where
  "SpatialGrid_Insert ident x y g =
     (let grid_x = c_rem (static_cast_int (x / CELL_SIZE)) GRID_SIZE;
          grid_y = c_rem (static_cast_int (y / CELL_SIZE)) GRID_SIZE
      in if grid_x \<ge> 0 \<and> grid_x < GRID_SIZE \<and> grid_y \<ge> 0 \<and> grid_y < GRID_SIZE
         then g\<lparr>cells := (\<lambda>cx cy. if cx = grid_x \<and> cy = grid_y
                                     then cells g cx cy @ [ident] else cells g cx cy)\<rparr>
         else g)"

definition StimulusBuffer_Clear :: "StimulusBuffer \<Rightarrow> StimulusBuffer" where
  "StimulusBuffer_Clear b = b\<lparr>visible_entities := map (\<lambda>vec. []) (visible_entities b)\<rparr>"

section \<open>Systems (include/Systems.h)\<close>

subsection \<open>PerceptionSystem\<close>

text \<open>
  \<open>std::atan2\<close> on the reals (the sign of a zero is not modelled), and the two
  normalisation loops of the angle check. Both loops terminate on the reals.
\<close>

definition atan2 :: "real \<Rightarrow> real \<Rightarrow> real" where
  "atan2 y x =
     (if 0 < x then arctan (y / x)
      else if x < 0 then (if 0 \<le> y then arctan (y / x) + pi else arctan (y / x) - pi)
      else if 0 < y then pi / 2
      else if y < 0 then - (pi / 2)
      else 0)"

function normalize_down :: "real \<Rightarrow> real" where
  "normalize_down angle_diff =
     (if angle_diff > pi then normalize_down (angle_diff - 2 * pi) else angle_diff)"
  by pat_completeness auto
termination
proof (relation "measure (\<lambda>a. nat \<lceil>a / (2 * pi)\<rceil>)")
  show "wf (measure (\<lambda>a. nat \<lceil>a / (2 * pi)\<rceil>))" by simp
next
  fix angle_diff :: real
  assume gt: "pi < angle_diff"
  have pos: "0 < 2 * pi" by simp
  have eq: "(angle_diff - 2 * pi) / (2 * pi) = angle_diff / (2 * pi) - 1"
    using pos by (simp add: diff_divide_distrib)
  have "0 < angle_diff" using gt pi_gt_zero by linarith
  then have q: "0 < angle_diff / (2 * pi)" using pos by (rule divide_pos_pos)
  then have "0 < \<lceil>angle_diff / (2 * pi)\<rceil>" by linarith
  moreover have "\<lceil>angle_diff / (2 * pi) - 1\<rceil> = \<lceil>angle_diff / (2 * pi)\<rceil> - 1" by simp
  ultimately have "nat \<lceil>angle_diff / (2 * pi) - 1\<rceil> < nat \<lceil>angle_diff / (2 * pi)\<rceil>"
    by simp
  then have "nat \<lceil>(angle_diff - 2 * pi) / (2 * pi)\<rceil> < nat \<lceil>angle_diff / (2 * pi)\<rceil>"
    by (simp only: eq)
  then show "(angle_diff - 2 * pi, angle_diff) \<in> measure (\<lambda>a. nat \<lceil>a / (2 * pi)\<rceil>)"
    by (simp only: in_measure)
qed

function normalize_up :: "real \<Rightarrow> real" where
  "normalize_up angle_diff =
     (if angle_diff < - pi then normalize_up (angle_diff + 2 * pi) else angle_diff)"
  by pat_completeness auto
termination
proof (relation "measure (\<lambda>a. nat \<lceil>(- a) / (2 * pi)\<rceil>)")
  show "wf (measure (\<lambda>a. nat \<lceil>(- a) / (2 * pi)\<rceil>))" by simp
next
  fix angle_diff :: real
  assume lt: "angle_diff < - pi"
  have pos: "0 < 2 * pi" by simp
  have eq: "(- (angle_diff + 2 * pi)) / (2 * pi) = (- angle_diff) / (2 * pi) - 1"
    using pos by (simp add: diff_divide_distrib)
  have "0 < - angle_diff" using lt pi_gt_zero by linarith
  then have q: "0 < (- angle_diff) / (2 * pi)" using pos by (rule divide_pos_pos)
  then have "0 < \<lceil>(- angle_diff) / (2 * pi)\<rceil>" by linarith
  moreover have "\<lceil>(- angle_diff) / (2 * pi) - 1\<rceil> = \<lceil>(- angle_diff) / (2 * pi)\<rceil> - 1"
    by simp
  ultimately have
    "nat \<lceil>(- angle_diff) / (2 * pi) - 1\<rceil> < nat \<lceil>(- angle_diff) / (2 * pi)\<rceil>"
    by simp
  then have
    "nat \<lceil>(- (angle_diff + 2 * pi)) / (2 * pi)\<rceil> < nat \<lceil>(- angle_diff) / (2 * pi)\<rceil>"
    by (simp only: eq)
  then show "(angle_diff + 2 * pi, angle_diff) \<in> measure (\<lambda>a. nat \<lceil>(- a) / (2 * pi)\<rceil>)"
    by (simp only: in_measure)
qed

text \<open>
  The range and field-of-view test of one candidate: squared distance against the squared
  view range, then the bearing against half the view angle.
\<close>

definition in_view :: "real GameState \<Rightarrow> EntityID \<Rightarrow> EntityID \<Rightarrow> bool" where
  "in_view state observer target =
     (let obs_x = position_x (transforms state) ! observer;
          obs_y = position_y (transforms state) ! observer;
          obs_orientation = orientation (transforms state) ! observer;
          view_range = view_range (perception state) ! observer;
          view_angle = view_angle (perception state) ! observer;
          tgt_x = position_x (transforms state) ! target;
          tgt_y = position_y (transforms state) ! target;
          dx_dist = tgt_x - obs_x;
          dy_dist = tgt_y - obs_y;
          distance_sq = dx_dist * dx_dist + dy_dist * dy_dist
      in if distance_sq > view_range * view_range then False
         else (let angle_to_target = atan2 dy_dist dx_dist;
                   angle_diff = \<bar>angle_to_target - obs_orientation\<bar>;
                   angle_diff = normalize_up (normalize_down angle_diff)
               in \<bar>angle_diff\<bar> \<le> view_angle / 2))"

text \<open>
  The cells the two offset loops reach around cell \<open>(grid_x, grid_y)\<close>, in loop order:
  the offsets run over \<open>-1, 0, 1\<close>, the coordinate is reduced with \<open>%\<close>, and a cell
  outside the grid is skipped by the guard.
\<close>

definition neighbor_cells :: "int \<Rightarrow> int \<Rightarrow> (int \<times> int) list" where
  "neighbor_cells grid_x grid_y =
     concat (map (\<lambda>dx. concat (map (\<lambda>dy.
       (let check_x = c_rem (grid_x + dx) GRID_SIZE;
            check_y = c_rem (grid_y + dy) GRID_SIZE
        in if check_x < 0 \<or> check_x \<ge> GRID_SIZE \<or> check_y < 0 \<or> check_y \<ge> GRID_SIZE
           then [] else [(check_x, check_y)])) [-1, 0, 1])) [-1, 0, 1])"

definition query_cells :: "real \<Rightarrow> real \<Rightarrow> (int \<times> int) list" where
  "query_cells obs_x obs_y =
     neighbor_cells (static_cast_int (obs_x / CELL_SIZE)) (static_cast_int (obs_y / CELL_SIZE))"

text \<open>The body of the innermost loop: one candidate of one bucket.\<close>

definition perceive_target :: "EntityID \<Rightarrow> EntityID \<Rightarrow> real GameState \<Rightarrow> real GameState" where
  "perceive_target observer target state =
     (if target = observer then state
      else if \<not> is_alive (health state) ! target then state
      else if in_view state observer target
      then state\<lparr>stimulus_buffer := (stimulus_buffer state)
             \<lparr>visible_entities := (visible_entities (stimulus_buffer state))
                [observer := visible_entities (stimulus_buffer state) ! observer @ [target]]\<rparr>\<rparr>
      else state)"

definition perceive_cell :: "EntityID \<Rightarrow> int \<times> int \<Rightarrow> real GameState \<Rightarrow> real GameState" where
  "perceive_cell observer c state =
     fold (perceive_target observer) (cells (spatial_grid state) (fst c) (snd c)) state"

definition perceive_observer :: "EntityID \<Rightarrow> real GameState \<Rightarrow> real GameState" where
  "perceive_observer observer state =
     (if \<not> is_alive (health state) ! observer then state
      else (let obs_x = position_x (transforms state) ! observer;
                obs_y = position_y (transforms state) ! observer;
                state = fold (perceive_cell observer) (query_cells obs_x obs_y) state
            in state\<lparr>perception := (perception state)
                 \<lparr>visible_entity_count := (visible_entity_count (perception state))
                    [observer := length (visible_entities (stimulus_buffer state) ! observer)]\<rparr>\<rparr>))"

definition grid_insert_entity :: "EntityID \<Rightarrow> real GameState \<Rightarrow> real GameState" where
  "grid_insert_entity i state =
     (if is_alive (health state) ! i
      then state\<lparr>spatial_grid := SpatialGrid_Insert i
             (position_x (transforms state) ! i) (position_y (transforms state) ! i)
             (spatial_grid state)\<rparr>
      else state)"

definition rebuild_grid :: "real GameState \<Rightarrow> real GameState" where
  "rebuild_grid state =
     fold grid_insert_entity [0..<entity_count state]
       (state\<lparr>spatial_grid := SpatialGrid_Clear (spatial_grid state)\<rparr>)"

definition PerceptionSystem_Update :: "real GameState \<Rightarrow> real GameState" where
  "PerceptionSystem_Update state =
     (let state = rebuild_grid state;
          state = state\<lparr>stimulus_buffer := StimulusBuffer_Clear (stimulus_buffer state)\<rparr>
      in fold perceive_observer [0..<entity_count state] state)"

subsection \<open>UtilitySystem\<close>

text \<open>
  \<open>rand()\<close> is the C library's global generator. Its output sequence is a parameter
  \<open>rnd\<close> (the \<open>k\<close>-th call returns \<open>rnd k\<close>, a non-negative \<open>int\<close>), and the
  number of calls made so far is threaded through the systems beside the state.
\<close>

definition QuadraticCurve :: "real \<Rightarrow> real" where
  "QuadraticCurve x = x * x"

definition CalculateEatUtility :: "real GameState \<Rightarrow> EntityID \<Rightarrow> real" where
  "CalculateEatUtility state ident =
     hunger (needs state) ! ident * QuadraticCurve (hunger (needs state) ! ident)"

definition CalculateSleepUtility :: "real GameState \<Rightarrow> EntityID \<Rightarrow> real" where
  "CalculateSleepUtility state ident =
     (let fatigue = 1 - energy (needs state) ! ident in fatigue * QuadraticCurve fatigue)"

definition CalculateFleeUtility :: "real GameState \<Rightarrow> EntityID \<Rightarrow> real" where
  "CalculateFleeUtility state ident =
     (let danger = 1 - safety (needs state) ! ident in danger * QuadraticCurve danger * 1.5)"

definition CalculateExploreUtility :: "real GameState \<Rightarrow> EntityID \<Rightarrow> real" where
  "CalculateExploreUtility state ident =
     curiosity (needs state) ! ident * energy (needs state) ! ident"

definition CalculateAttackUtility :: "real GameState \<Rightarrow> EntityID \<Rightarrow> real" where
  "CalculateAttackUtility state ident =
     (if visible_entities (stimulus_buffer state) ! ident = [] then 0
      else hunger (needs state) ! ident * energy (needs state) ! ident * 0.8)"

text \<open>
  The chain of five strict comparisons against the running maximum, which starts at
  \<open>(0, IDLE)\<close>.
\<close>

definition select_action :: "real \<Rightarrow> real \<Rightarrow> real \<Rightarrow> real \<Rightarrow> real \<Rightarrow> real \<times> ActionType" where
  "select_action eat_utility sleep_utility flee_utility explore_utility attack_utility =
     (let best = (0, IDLE);
          best = (if eat_utility > fst best then (eat_utility, EAT) else best);
          best = (if sleep_utility > fst best then (sleep_utility, SLEEP) else best);
          best = (if flee_utility > fst best then (flee_utility, FLEE) else best);
          best = (if explore_utility > fst best then (explore_utility, EXPLORE) else best);
          best = (if attack_utility > fst best then (attack_utility, ATTACK) else best)
      in best)"

definition decide :: "real GameState \<Rightarrow> EntityID \<Rightarrow> real \<times> ActionType" where
  "decide state i =
     select_action (CalculateEatUtility state i) (CalculateSleepUtility state i)
       (CalculateFleeUtility state i) (CalculateExploreUtility state i)
       (CalculateAttackUtility state i)"

definition write_decision :: "EntityID \<Rightarrow> real \<times> ActionType \<Rightarrow> real GameState \<Rightarrow> real GameState" where
  "write_decision i best state =
     state\<lparr>actions := (actions state)
       \<lparr>current_action := (current_action (actions state))[i := snd best],
        action_utility := (action_utility (actions state))[i := fst best]\<rparr>\<rparr>"

definition set_target :: "(nat \<Rightarrow> nat) \<Rightarrow> EntityID \<Rightarrow> ActionType \<Rightarrow> real GameState \<times> nat
    \<Rightarrow> real GameState \<times> nat" where
  "set_target rnd i best_action sk =
     (let state = fst sk; k = snd sk
      in if best_action = ATTACK \<and> visible_entities (stimulus_buffer state) ! i \<noteq> []
         then (let target = visible_entities (stimulus_buffer state) ! i ! 0
               in (state\<lparr>actions := (actions state)
                     \<lparr>target_entity := (target_entity (actions state))[i := target],
                      target_x := (target_x (actions state))
                         [i := position_x (transforms state) ! target],
                      target_y := (target_y (actions state))
                         [i := position_y (transforms state) ! target]\<rparr>\<rparr>, k))
         else if best_action = EXPLORE
         then (state\<lparr>actions := (actions state)
                 \<lparr>target_x := (target_x (actions state))
                    [i := position_x (transforms state) ! i
                          + real_of_int (int (rnd k mod 20) - 10)],
                  target_y := (target_y (actions state))
                    [i := position_y (transforms state) ! i
                          + real_of_int (int (rnd (k + 1) mod 20) - 10)]\<rparr>\<rparr>, k + 2)
         else (state, k))"

definition UtilitySystem_entity :: "(nat \<Rightarrow> nat) \<Rightarrow> EntityID \<Rightarrow> real GameState \<times> nat
    \<Rightarrow> real GameState \<times> nat" where
  "UtilitySystem_entity rnd i sk =
     (let state = fst sk; k = snd sk
      in if \<not> is_alive (health state) ! i then (state, k)
         else (let best = decide state i
               in set_target rnd i (snd best) (write_decision i best state, k)))"

definition UtilitySystem_Update :: "(nat \<Rightarrow> nat) \<Rightarrow> real GameState \<times> nat
    \<Rightarrow> real GameState \<times> nat" where
  "UtilitySystem_Update rnd sk =
     fold (UtilitySystem_entity rnd) [0..<entity_count (fst sk)] sk"

subsection \<open>KineticSystem\<close>

definition MAX_SPEED :: real where
  "MAX_SPEED = 5"

definition ACCELERATION :: real where
  "ACCELERATION = 2"

definition add_velocity :: "EntityID \<Rightarrow> real \<Rightarrow> real \<Rightarrow> real GameState \<Rightarrow> real GameState" where
  "add_velocity i ax ay state =
     state\<lparr>transforms := (transforms state)
       \<lparr>velocity_x := (velocity_x (transforms state))
          [i := velocity_x (transforms state) ! i + ax],
        velocity_y := (velocity_y (transforms state))
          [i := velocity_y (transforms state) ! i + ay]\<rparr>\<rparr>"

text \<open>The action-based movement: seek the target, flee the first visible entity, or damp.\<close>

definition apply_action :: "real \<Rightarrow> EntityID \<Rightarrow> real GameState \<Rightarrow> real GameState" where
  "apply_action delta_time i state =
     (let action = current_action (actions state) ! i
      in if action = MOVE_TO_TARGET \<or> action = ATTACK \<or> action = EXPLORE
         then (let tgt_x = target_x (actions state) ! i;
                   tgt_y = target_y (actions state) ! i;
                   current_x = position_x (transforms state) ! i;
                   current_y = position_y (transforms state) ! i;
                   dx = tgt_x - current_x;
                   dy = tgt_y - current_y;
                   distance = sqrt (dx * dx + dy * dy)
               in if distance > 0.1
                  then (let dir_x = dx / distance;
                            dir_y = dy / distance;
                            state = add_velocity i (dir_x * ACCELERATION * delta_time)
                                      (dir_y * ACCELERATION * delta_time) state
                        in state\<lparr>transforms := (transforms state)
                             \<lparr>orientation := (orientation (transforms state))
                                [i := atan2 dy dx]\<rparr>\<rparr>)
                  else state)
         else if action = FLEE
         then (if visible_entities (stimulus_buffer state) ! i \<noteq> []
               then (let threat = visible_entities (stimulus_buffer state) ! i ! 0;
                         threat_x = position_x (transforms state) ! threat;
                         threat_y = position_y (transforms state) ! threat;
                         current_x = position_x (transforms state) ! i;
                         current_y = position_y (transforms state) ! i;
                         dx = current_x - threat_x;
                         dy = current_y - threat_y;
                         distance = sqrt (dx * dx + dy * dy)
                     in if distance > 0.1
                        then (let dir_x = dx / distance;
                                  dir_y = dy / distance
                              in add_velocity i (dir_x * ACCELERATION * 1.5 * delta_time)
                                   (dir_y * ACCELERATION * 1.5 * delta_time) state)
                        else state)
               else state)
         else if action = SLEEP \<or> action = IDLE
         then state\<lparr>transforms := (transforms state)
                \<lparr>velocity_x := (velocity_x (transforms state))
                   [i := velocity_x (transforms state) ! i * 0.9],
                 velocity_y := (velocity_y (transforms state))
                   [i := velocity_y (transforms state) ! i * 0.9]\<rparr>\<rparr>
         else state)"

definition clamp_speed :: "EntityID \<Rightarrow> real GameState \<Rightarrow> real GameState" where
  "clamp_speed i state =
     (let speed_sq = velocity_x (transforms state) ! i * velocity_x (transforms state) ! i
                   + velocity_y (transforms state) ! i * velocity_y (transforms state) ! i
      in if speed_sq > MAX_SPEED * MAX_SPEED
         then (let speed = sqrt speed_sq
               in state\<lparr>transforms := (transforms state)
                    \<lparr>velocity_x := (velocity_x (transforms state))
                       [i := (velocity_x (transforms state) ! i / speed) * MAX_SPEED],
                     velocity_y := (velocity_y (transforms state))
                       [i := (velocity_y (transforms state) ! i / speed) * MAX_SPEED]\<rparr>\<rparr>)
         else state)"

definition integrate_position :: "real \<Rightarrow> EntityID \<Rightarrow> real GameState \<Rightarrow> real GameState" where
  "integrate_position delta_time i state =
     state\<lparr>transforms := (transforms state)
       \<lparr>position_x := (position_x (transforms state))
          [i := max 0 (min 1000 (position_x (transforms state) ! i
                  + velocity_x (transforms state) ! i * delta_time))],
        position_y := (position_y (transforms state))
          [i := max 0 (min 1000 (position_y (transforms state) ! i
                  + velocity_y (transforms state) ! i * delta_time))]\<rparr>\<rparr>"

definition KineticSystem_entity :: "real \<Rightarrow> EntityID \<Rightarrow> real GameState \<Rightarrow> real GameState" where
  "KineticSystem_entity delta_time i state =
     (if \<not> is_alive (health state) ! i then state
      else integrate_position delta_time i (clamp_speed i (apply_action delta_time i state)))"

definition KineticSystem_Update :: "real \<Rightarrow> real GameState \<Rightarrow> real GameState" where
  "KineticSystem_Update delta_time state =
     fold (KineticSystem_entity delta_time) [0..<entity_count state] state"

subsection \<open>NeedsSystem\<close>

definition NeedsSystem_entity :: "(nat \<Rightarrow> nat) \<Rightarrow> real \<Rightarrow> EntityID \<Rightarrow> real GameState \<times> nat
    \<Rightarrow> real GameState \<times> nat" where
  "NeedsSystem_entity rnd delta_time i sk =
     (let state = fst sk; k = snd sk
      in if \<not> is_alive (health state) ! i then (state, k)
         else (let action = current_action (actions state) ! i;
                   hunger1 = min 1 (hunger (needs state) ! i + 0.01 * delta_time);
                   energy1 = (if action = SLEEP
                              then min 1 (energy (needs state) ! i + 0.1 * delta_time)
                              else max 0 (energy (needs state) ! i - 0.02 * delta_time));
                   hunger2 = (if action = EAT then max 0 (hunger1 - 0.15 * delta_time)
                              else hunger1);
                   safety1 = (if visible_entity_count (perception state) ! i > 3
                              then max 0 (safety (needs state) ! i - 0.05 * delta_time)
                              else min 1 (safety (needs state) ! i + 0.03 * delta_time));
                   curiosity1 = curiosity (needs state) ! i
                                + real_of_int (int (rnd k mod 100) - 50) * 0.001 * delta_time;
                   curiosity2 = max 0 (min 1 curiosity1)
               in (state\<lparr>needs := (needs state)
                     \<lparr>hunger := (hunger (needs state))[i := hunger2],
                      energy := (energy (needs state))[i := energy1],
                      safety := (safety (needs state))[i := safety1],
                      curiosity := (curiosity (needs state))[i := curiosity2]\<rparr>\<rparr>, k + 1)))"

definition NeedsSystem_Update :: "(nat \<Rightarrow> nat) \<Rightarrow> real \<Rightarrow> real GameState \<times> nat
    \<Rightarrow> real GameState \<times> nat" where
  "NeedsSystem_Update rnd delta_time sk =
     fold (NeedsSystem_entity rnd delta_time) [0..<entity_count (fst sk)] sk"

section \<open>The driver (src/main.cpp)\<close>

text \<open>
  \<open>InitializeEntities\<close> draws from \<open>std::mt19937\<close> through three uniform real
  distributions. The generator is a parameter: \<open>sample n a b\<close> is the value the \<open>n\<close>-th
  draw returns from the distribution on \<open>[a, b)\<close>; each entity makes seven draws.
\<close>

definition init_entity :: "(nat \<Rightarrow> real \<Rightarrow> real \<Rightarrow> real) \<Rightarrow> EntityID \<Rightarrow> real GameState
    \<Rightarrow> real GameState" where
  "init_entity sample i state =
     state\<lparr>transforms := (transforms state)
       \<lparr>position_x := (position_x (transforms state))[i := sample (7 * i) 0 1000],
        position_y := (position_y (transforms state))[i := sample (7 * i + 1) 0 1000],
        position_z := (position_z (transforms state))[i := 0],
        velocity_x := (velocity_x (transforms state))[i := 0],
        velocity_y := (velocity_y (transforms state))[i := 0],
        velocity_z := (velocity_z (transforms state))[i := 0],
        orientation := (orientation (transforms state))[i := sample (7 * i + 2) 0 (2 * pi)]\<rparr>,
      perception := (perception state)
       \<lparr>view_range := (view_range (perception state))[i := 50 + real (i mod 50)],
        view_angle := (view_angle (perception state))[i := pi / 2],
        visible_entity_count := (visible_entity_count (perception state))[i := 0]\<rparr>,
      needs := (needs state)
       \<lparr>hunger := (hunger (needs state))[i := sample (7 * i + 3) 0 1],
        energy := (energy (needs state))[i := sample (7 * i + 4) 0 1],
        safety := (safety (needs state))[i := sample (7 * i + 5) 0 1],
        curiosity := (curiosity (needs state))[i := sample (7 * i + 6) 0 1]\<rparr>,
      actions := (actions state)
       \<lparr>current_action := (current_action (actions state))[i := IDLE],
        action_utility := (action_utility (actions state))[i := 0],
        target_entity := (target_entity (actions state))[i := INVALID_ENTITY],
        target_x := (target_x (actions state))[i := 0],
        target_y := (target_y (actions state))[i := 0],
        target_z := (target_z (actions state))[i := 0]\<rparr>,
      health := (health state)
       \<lparr>HealthComponents.health := (HealthComponents.health (health state))[i := 100],
        max_health := (max_health (health state))[i := 100],
        armor_type := (armor_type (health state))[i := int (i mod 3)],
        is_alive := (is_alive (health state))[i := True]\<rparr>\<rparr>"

definition InitializeEntities :: "(nat \<Rightarrow> real \<Rightarrow> real \<Rightarrow> real) \<Rightarrow> nat \<Rightarrow> real GameState
    \<Rightarrow> real GameState" where
  "InitializeEntities sample count state =
     fold (init_entity sample) [0..<count] (GameState_Initialize count state)"

text \<open>One frame of the main loop: the four systems in their fixed order.\<close>

definition Frame :: "(nat \<Rightarrow> nat) \<Rightarrow> real \<Rightarrow> real GameState \<times> nat \<Rightarrow> real GameState \<times> nat" where
  "Frame rnd delta_time sk =
     (let state = PerceptionSystem_Update (fst sk);
          sk = UtilitySystem_Update rnd (state, snd sk);
          state = KineticSystem_Update delta_time (fst sk);
          sk = NeedsSystem_Update rnd delta_time (state, snd sk)
      in sk)"

fun run_frames :: "(nat \<Rightarrow> nat) \<Rightarrow> real \<Rightarrow> nat \<Rightarrow> real GameState \<times> nat \<Rightarrow> real GameState \<times> nat" where
  "run_frames rnd delta_time 0 sk = sk"
| "run_frames rnd delta_time (Suc n) sk = Frame rnd delta_time (run_frames rnd delta_time n sk)"

section \<open>The validator (include/Diagnostics.h)\<close>

text \<open>
  The validator tests for the special values of a C++ \<open>float\<close>, so it reads the state
  with scalars of type \<open>cfloat\<close>: a finite value, an infinity or a NaN. A comparison
  with a NaN is false.
\<close>

datatype cfloat = Finite real | PosInf | NegInf | NaN

fun isnan :: "cfloat \<Rightarrow> bool" where
  "isnan NaN = True"
| "isnan _ = False"

fun isinf :: "cfloat \<Rightarrow> bool" where
  "isinf PosInf = True"
| "isinf NegInf = True"
| "isinf _ = False"

fun cfloat_less :: "cfloat \<Rightarrow> cfloat \<Rightarrow> bool" where
  "cfloat_less NaN _ = False"
| "cfloat_less _ NaN = False"
| "cfloat_less (Finite a) (Finite b) = (a < b)"
| "cfloat_less (Finite a) PosInf = True"
| "cfloat_less NegInf (Finite b) = True"
| "cfloat_less NegInf PosInf = True"
| "cfloat_less _ _ = False"

definition validate_entity :: "cfloat GameState \<Rightarrow> EntityID \<Rightarrow> bool \<Rightarrow> bool" where
  "validate_entity state i valid =
     (let valid = (if isnan (position_x (transforms state) ! i)
                      \<or> isinf (position_x (transforms state) ! i)
                   then False else valid);
          valid = (if isnan (hunger (needs state) ! i)
                      \<or> cfloat_less (hunger (needs state) ! i) (Finite 0)
                      \<or> cfloat_less (Finite 1) (hunger (needs state) ! i)
                   then False else valid)
      in valid)"

definition ValidateState :: "cfloat GameState \<Rightarrow> bool" where
  "ValidateState state =
     (let valid = True;
          valid = (if TransformComponents_Size (transforms state) \<noteq> entity_count state
                   then False else valid);
          valid = (if PerceptionComponents_Size (perception state) \<noteq> entity_count state
                   then False else valid);
          valid = (if NeedsComponents_Size (needs state) \<noteq> entity_count state
                   then False else valid);
          valid = (if ActionComponents_Size (actions state) \<noteq> entity_count state
                   then False else valid)
      in fold (validate_entity state) [0..<entity_count state] valid)"

text \<open>The state the systems computed, as the validator reads it: every scalar is finite.\<close>

definition as_cfloat :: "real GameState \<Rightarrow> cfloat GameState" where
  "as_cfloat state =
     \<lparr>entity_count = entity_count state,
      transforms = \<lparr>position_x = map Finite (position_x (transforms state)),
        position_y = map Finite (position_y (transforms state)),
        position_z = map Finite (position_z (transforms state)),
        velocity_x = map Finite (velocity_x (transforms state)),
        velocity_y = map Finite (velocity_y (transforms state)),
        velocity_z = map Finite (velocity_z (transforms state)),
        orientation = map Finite (orientation (transforms state))\<rparr>,
      perception = \<lparr>view_range = map Finite (view_range (perception state)),
        view_angle = map Finite (view_angle (perception state)),
        visible_entity_count = visible_entity_count (perception state)\<rparr>,
      needs = \<lparr>hunger = map Finite (hunger (needs state)),
        energy = map Finite (energy (needs state)),
        safety = map Finite (safety (needs state)),
        curiosity = map Finite (curiosity (needs state))\<rparr>,
      actions = \<lparr>current_action = current_action (actions state),
        action_utility = map Finite (action_utility (actions state)),
        target_entity = target_entity (actions state),
        target_x = map Finite (target_x (actions state)),
        target_y = map Finite (target_y (actions state)),
        target_z = map Finite (target_z (actions state))\<rparr>,
      health = \<lparr>HealthComponents.health = map Finite (HealthComponents.health (health state)),
        max_health = map Finite (max_health (health state)),
        armor_type = armor_type (health state),
        is_alive = is_alive (health state)\<rparr>,
      spatial_grid = spatial_grid state,
      stimulus_buffer = stimulus_buffer state\<rparr>"

text \<open>
  \<open>main\<close>: initialise, validate, then run the frames; a failed validation ends the run
  with the number of the frame. The chaos monkey is compiled out (\<open>ENABLE_CHAOS\<close> is
  \<open>false\<close>); logging, profiling and printing do not touch the state.
\<close>

definition ENTITY_COUNT :: nat where
  "ENTITY_COUNT = 1000"

definition SIMULATION_FRAMES :: nat where
  "SIMULATION_FRAMES = 100"

definition DELTA_TIME :: real where
  "DELTA_TIME = 0.016"

datatype Outcome =
  InitialValidationFailed
  | ValidationFailed nat "real GameState"
  | Completed "real GameState"

fun main_loop :: "(nat \<Rightarrow> nat) \<Rightarrow> nat \<Rightarrow> nat \<Rightarrow> real GameState \<times> nat \<Rightarrow> Outcome" where
  "main_loop rnd frame 0 sk = Completed (fst sk)"
| "main_loop rnd frame (Suc remaining) sk =
     (let sk = Frame rnd DELTA_TIME sk
      in if \<not> ValidateState (as_cfloat (fst sk)) then ValidationFailed frame (fst sk)
         else main_loop rnd (Suc frame) remaining sk)"

definition main :: "(nat \<Rightarrow> real \<Rightarrow> real \<Rightarrow> real) \<Rightarrow> (nat \<Rightarrow> nat) \<Rightarrow> Outcome" where
  "main sample rnd =
     (let state = InitializeEntities sample ENTITY_COUNT GameState_default
      in if \<not> ValidateState (as_cfloat state) then InitialValidationFailed
         else main_loop rnd 0 SIMULATION_FRAMES (state, 0))"

section \<open>Well-formed states, rows and example states\<close>

text \<open>
  Indexing a \<open>std::vector\<close> out of range is undefined, so the systems are meaningful on
  states whose arrays all have \<open>entity_count\<close> elements, as \<open>GameState::Initialize\<close>
  makes them.
\<close>

definition well_formed :: "real GameState \<Rightarrow> bool" where
  "well_formed state =
     (length (position_x (transforms state)) = entity_count state
      \<and> length (position_y (transforms state)) = entity_count state
      \<and> length (position_z (transforms state)) = entity_count state
      \<and> length (velocity_x (transforms state)) = entity_count state
      \<and> length (velocity_y (transforms state)) = entity_count state
      \<and> length (velocity_z (transforms state)) = entity_count state
      \<and> length (orientation (transforms state)) = entity_count state
      \<and> length (view_range (perception state)) = entity_count state
      \<and> length (view_angle (perception state)) = entity_count state
      \<and> length (visible_entity_count (perception state)) = entity_count state
      \<and> length (hunger (needs state)) = entity_count state
      \<and> length (energy (needs state)) = entity_count state
      \<and> length (safety (needs state)) = entity_count state
      \<and> length (curiosity (needs state)) = entity_count state
      \<and> length (current_action (actions state)) = entity_count state
      \<and> length (action_utility (actions state)) = entity_count state
      \<and> length (target_entity (actions state)) = entity_count state
      \<and> length (target_x (actions state)) = entity_count state
      \<and> length (target_y (actions state)) = entity_count state
      \<and> length (target_z (actions state)) = entity_count state
      \<and> length (HealthComponents.health (health state)) = entity_count state
      \<and> length (max_health (health state)) = entity_count state
      \<and> length (armor_type (health state)) = entity_count state
      \<and> length (is_alive (health state)) = entity_count state
      \<and> length (visible_entities (stimulus_buffer state)) = entity_count state)"

definition action_row :: "real ActionComponents \<Rightarrow> EntityID
    \<Rightarrow> ActionType \<times> real \<times> EntityID \<times> real \<times> real \<times> real" where
  "action_row a i =
     (current_action a ! i, action_utility a ! i, target_entity a ! i,
      target_x a ! i, target_y a ! i, target_z a ! i)"

definition action_sizes :: "real ActionComponents \<Rightarrow> nat \<times> nat \<times> nat \<times> nat \<times> nat \<times> nat" where
  "action_sizes a =
     (length (current_action a), length (action_utility a), length (target_entity a),
      length (target_x a), length (target_y a), length (target_z a))"

text \<open>What a decision step reads besides the row it writes.\<close>

definition decision_inputs :: "real GameState \<Rightarrow>
    nat \<times> real TransformComponents \<times> real PerceptionComponents \<times> real NeedsComponents
      \<times> real HealthComponents \<times> SpatialGrid \<times> StimulusBuffer
      \<times> (nat \<times> nat \<times> nat \<times> nat \<times> nat \<times> nat)" where
  "decision_inputs state =
     (entity_count state, transforms state, perception state, needs state, health state,
      spatial_grid state, stimulus_buffer state, action_sizes (actions state))"

text \<open>A single live, idle entity at the origin with the given needs.\<close>

definition lone_agent :: "real \<Rightarrow> real \<Rightarrow> real \<Rightarrow> real \<Rightarrow> real GameState" where
  "lone_agent h e sf c =
     (GameState_Initialize 1 GameState_default)
       \<lparr>needs := \<lparr>hunger = [h], energy = [e], safety = [sf], curiosity = [c]\<rparr>\<rparr>"

definition transform_row :: "real TransformComponents \<Rightarrow> EntityID
    \<Rightarrow> real \<times> real \<times> real \<times> real \<times> real \<times> real \<times> real" where
  "transform_row t i =
     (position_x t ! i, position_y t ! i, position_z t ! i,
      velocity_x t ! i, velocity_y t ! i, velocity_z t ! i, orientation t ! i)"

definition transform_sizes :: "real TransformComponents
    \<Rightarrow> nat \<times> nat \<times> nat \<times> nat \<times> nat \<times> nat \<times> nat" where
  "transform_sizes t =
     (length (position_x t), length (position_y t), length (position_z t),
      length (velocity_x t), length (velocity_y t), length (velocity_z t),
      length (orientation t))"

definition needs_row :: "real NeedsComponents \<Rightarrow> EntityID \<Rightarrow> real \<times> real \<times> real \<times> real" where
  "needs_row n i = (hunger n ! i, energy n ! i, safety n ! i, curiosity n ! i)"

definition needs_sizes :: "real NeedsComponents \<Rightarrow> nat \<times> nat \<times> nat \<times> nat" where
  "needs_sizes n = (length (hunger n), length (energy n), length (safety n), length (curiosity n))"

text \<open>What the passes of the other systems leave untouched.\<close>

definition perception_inputs :: "real GameState \<Rightarrow>
    nat \<times> real TransformComponents \<times> real NeedsComponents \<times> real ActionComponents
      \<times> real HealthComponents \<times> real list \<times> real list \<times> nat \<times> nat" where
  "perception_inputs state =
     (entity_count state, transforms state, needs state, actions state, health state,
      view_range (perception state), view_angle (perception state),
      length (visible_entity_count (perception state)),
      length (visible_entities (stimulus_buffer state)))"

definition kinetic_inputs :: "real GameState \<Rightarrow>
    nat \<times> real PerceptionComponents \<times> real NeedsComponents \<times> real ActionComponents
      \<times> real HealthComponents \<times> SpatialGrid \<times> StimulusBuffer
      \<times> (nat \<times> nat \<times> nat \<times> nat \<times> nat \<times> nat \<times> nat)" where
  "kinetic_inputs state =
     (entity_count state, perception state, needs state, actions state, health state,
      spatial_grid state, stimulus_buffer state, transform_sizes (transforms state))"

definition drive_inputs :: "real GameState \<Rightarrow>
    nat \<times> real TransformComponents \<times> real PerceptionComponents \<times> real ActionComponents
      \<times> real HealthComponents \<times> SpatialGrid \<times> StimulusBuffer \<times> (nat \<times> nat \<times> nat \<times> nat)" where
  "drive_inputs state =
     (entity_count state, transforms state, perception state, actions state, health state,
      spatial_grid state, stimulus_buffer state, needs_sizes (needs state))"

definition no_move_to_target :: "real GameState \<Rightarrow> bool" where
  "no_move_to_target state = (MOVE_TO_TARGET \<notin> set (current_action (actions state)))"

text \<open>
  Two live entities: entity 0 at the origin, hungry and rested, with entity 1 in its
  visible set; entity 1 at \<open>(50, 50)\<close>, sated, moving with velocity \<open>(1, 0)\<close>.
\<close>

definition hunter_and_prey :: "real GameState" where
  "hunter_and_prey =
     (GameState_Initialize 2 GameState_default)
       \<lparr>transforms := \<lparr>position_x = [0, 50], position_y = [0, 50], position_z = [0, 0],
          velocity_x = [0, 1], velocity_y = [0, 0], velocity_z = [0, 0], orientation = [0, 0]\<rparr>,
        needs := \<lparr>hunger = [1 / 2, 0], energy = [1, 1], safety = [1, 1], curiosity = [0, 0]\<rparr>,
        stimulus_buffer := \<lparr>visible_entities = [[1], []]\<rparr>\<rparr>"

text \<open>The velocity an idle or sleeping entity leaves the kinematics stage with.\<close>

definition damped_velocity :: "real \<Rightarrow> real \<Rightarrow> real \<times> real" where
  "damped_velocity vx vy =
     (let dx = vx * 0.9; dy = vy * 0.9; speed_sq = dx * dx + dy * dy
      in if speed_sq > MAX_SPEED * MAX_SPEED
         then ((dx / sqrt speed_sq) * MAX_SPEED, (dy / sqrt speed_sq) * MAX_SPEED)
         else (dx, dy))"

text \<open>A single live, idle entity at the origin with velocity \<open>(vx, vy)\<close>.\<close>

definition drifter :: "real \<Rightarrow> real \<Rightarrow> real GameState" where
  "drifter vx vy =
     (GameState_Initialize 1 GameState_default)
       \<lparr>transforms := \<lparr>position_x = [0], position_y = [0], position_z = [0],
          velocity_x = [vx], velocity_y = [vy], velocity_z = [0], orientation = [0]\<rparr>\<rparr>"

text \<open>The ranges of the needs and of the position, for every element of the arrays.\<close>

definition in_bounds :: "real GameState \<Rightarrow> bool" where
  "in_bounds state =
     (list_all (\<lambda>v. 0 \<le> v \<and> v \<le> 1) (hunger (needs state))
      \<and> list_all (\<lambda>v. 0 \<le> v \<and> v \<le> 1) (energy (needs state))
      \<and> list_all (\<lambda>v. 0 \<le> v \<and> v \<le> 1) (safety (needs state))
      \<and> list_all (\<lambda>v. 0 \<le> v \<and> v \<le> 1) (curiosity (needs state))
      \<and> list_all (\<lambda>v. 0 \<le> v \<and> v \<le> 1000) (position_x (transforms state))
      \<and> list_all (\<lambda>v. 0 \<le> v \<and> v \<le> 1000) (position_y (transforms state)))"

text \<open>
  The grid coordinate \<open>SpatialGrid::Insert\<close> computes along one axis, and the candidates
  the neighbourhood query of an observer collects: the buckets of the visited cells, in
  loop order.
\<close>

definition cell_index :: "real \<Rightarrow> int" where
  "cell_index x = c_rem (static_cast_int (x / CELL_SIZE)) GRID_SIZE"

definition candidates :: "real GameState \<Rightarrow> EntityID \<Rightarrow> EntityID list" where
  "candidates state observer =
     concat (map (\<lambda>c. cells (spatial_grid state) (fst c) (snd c))
       (query_cells (position_x (transforms state) ! observer)
          (position_y (transforms state) ! observer)))"

text \<open>The tests a candidate passes to enter the visible set of an observer.\<close>

definition seen :: "real GameState \<Rightarrow> EntityID \<Rightarrow> EntityID \<Rightarrow> bool" where
  "seen state observer target =
     (target \<noteq> observer \<and> is_alive (health state) ! target \<and> in_view state observer target)"

text \<open>
  Two live entities on one row at opposite edges of the world: entity 0 at \<open>x = 999\<close>,
  entity 1 at \<open>x = 1\<close>, both at \<open>y = 5\<close>.
\<close>

definition edge_pair :: "real GameState" where
  "edge_pair =
     (GameState_Initialize 2 GameState_default)
       \<lparr>transforms := \<lparr>position_x = [999, 1], position_y = [5, 5], position_z = [0, 0],
          velocity_x = [0, 0], velocity_y = [0, 0], velocity_z = [0, 0], orientation = [0, 0]\<rparr>\<rparr>"

text \<open>
  Two entities, the first alive and the second dead, both at the origin.
\<close>

definition live_and_dead :: "real GameState" where
  "live_and_dead =
     (let state = GameState_Initialize 2 GameState_default
      in state\<lparr>health := (health state)\<lparr>is_alive := [True, False]\<rparr>\<rparr>)"

text \<open>
  Snapshots of one entity for the validator: a sound one, and three damaged ones, with a
  NaN in \<open>position_y\<close>, with an energy of 1.5 (and a NaN safety and a negative
  curiosity), and with empty health arrays.
\<close>

definition sound_snapshot :: "cfloat GameState" where
  "sound_snapshot = as_cfloat (lone_agent (1 / 2) (1 / 2) (1 / 2) (1 / 2))"

definition nan_position_y :: "cfloat GameState" where
  "nan_position_y =
     sound_snapshot\<lparr>transforms := (transforms sound_snapshot)\<lparr>position_y := [NaN]\<rparr>\<rparr>"

definition excess_energy :: "cfloat GameState" where
  "excess_energy =
     sound_snapshot\<lparr>needs := (needs sound_snapshot)
       \<lparr>energy := [Finite (3 / 2)], safety := [NaN], curiosity := [Finite (- 1)]\<rparr>\<rparr>"

definition short_health :: "cfloat GameState" where
  "short_health =
     sound_snapshot\<lparr>health := \<lparr>HealthComponents.health = [], max_health = [],
        armor_type = [], is_alive = []\<rparr>\<rparr>"

section \<open>Loops over the entities\<close>

lemma fold_preserve:
  "(\<And>j s. j \<in> set js \<Longrightarrow> V (f j s) = V s) \<Longrightarrow> V (fold f js s) = V s"
  by (induction js arbitrary: s) simp_all

lemma fold_invariant:
  "(\<And>j s. j \<in> set js \<Longrightarrow> P s \<Longrightarrow> P (f j s)) \<Longrightarrow> P s \<Longrightarrow> P (fold f js s)"
  by (induction js arbitrary: s) simp_all

lemma upt_split: "i < n \<Longrightarrow> [0..<n] = [0..<i] @ i # [Suc i..<n]"
  by (metis upt_conv_Cons upt_add_eq_append le0 less_imp_le_nat le_add_diff_inverse)

lemma fold_upt_split:
  "i < n \<Longrightarrow> fold f [0..<n] s = fold f [Suc i..<n] (f i (fold f [0..<i] s))"
  by (simp add: upt_split)

subsection \<open>The decision stage\<close>

lemma UtilitySystem_entity_inputs:
  "decision_inputs (fst (UtilitySystem_entity rnd j sk)) = decision_inputs (fst sk)"
  by (simp add: UtilitySystem_entity_def set_target_def write_decision_def decision_inputs_def
      action_sizes_def Let_def)

lemma UtilitySystem_entity_other:
  "j \<noteq> i \<Longrightarrow> action_row (actions (fst (UtilitySystem_entity rnd j sk))) i
     = action_row (actions (fst sk)) i"
  by (simp add: UtilitySystem_entity_def set_target_def write_decision_def action_row_def Let_def)

lemma UtilitySystem_entity_counter: "snd sk \<le> snd (UtilitySystem_entity rnd j sk)"
  by (simp add: UtilitySystem_entity_def set_target_def Let_def)

lemma decide_inputs:
  "decision_inputs s = decision_inputs s' \<Longrightarrow> decide s i = decide s' i"
  by (simp add: decision_inputs_def decide_def CalculateEatUtility_def CalculateSleepUtility_def
      CalculateFleeUtility_def CalculateExploreUtility_def CalculateAttackUtility_def)

lemma nth_list_update_self: "(xs[i := v]) ! i = (if i < length xs then v else xs ! i)"
  by (simp add: list_update_beyond)

lemma UtilitySystem_entity_row_cong:
  "decision_inputs s = decision_inputs s' \<Longrightarrow> action_row (actions s) i = action_row (actions s') i
   \<Longrightarrow> action_row (actions (fst (UtilitySystem_entity rnd i (s, k)))) i
     = action_row (actions (fst (UtilitySystem_entity rnd i (s', k)))) i"
  by (simp add: UtilitySystem_entity_def set_target_def write_decision_def action_row_def Let_def
      decide_inputs[of s s'] decision_inputs_def action_sizes_def nth_list_update_self)


lemma UtilitySystem_Update_inputs:
  "decision_inputs (fst (UtilitySystem_Update rnd sk)) = decision_inputs (fst sk)"
  unfolding UtilitySystem_Update_def
  by (rule fold_preserve [where V = "\<lambda>sk. decision_inputs (fst sk)"])
     (rule UtilitySystem_entity_inputs)

lemma UtilitySystem_Update_row:
  assumes "i < entity_count s"
  shows "\<exists>k'. k \<le> k' \<and> action_row (actions (fst (UtilitySystem_Update rnd (s, k)))) i
           = action_row (actions (fst (UtilitySystem_entity rnd i (s, k')))) i"
proof -
  let ?f = "UtilitySystem_entity rnd"
  let ?sk1 = "fold ?f [0..<i] (s, k)"
  have inputs1: "decision_inputs (fst ?sk1) = decision_inputs s"
    using fold_preserve [where V = "\<lambda>sk. decision_inputs (fst sk)" and f = ?f and js = "[0..<i]"
        and s = "(s, k)"]
    by (simp add: UtilitySystem_entity_inputs)
  have row1: "action_row (actions (fst ?sk1)) i = action_row (actions s) i"
    using fold_preserve [where V = "\<lambda>sk. action_row (actions (fst sk)) i" and f = ?f
        and js = "[0..<i]" and s = "(s, k)"]
    by (simp add: UtilitySystem_entity_other)
  have k1: "k \<le> snd ?sk1"
    using fold_invariant [where P = "\<lambda>sk. k \<le> snd sk" and f = ?f and js = "[0..<i]"
        and s = "(s, k)"]
    by (simp add: order_trans [OF _ UtilitySystem_entity_counter])
  have step: "action_row (actions (fst (?f i ?sk1))) i
      = action_row (actions (fst (?f i (s, snd ?sk1)))) i"
    using UtilitySystem_entity_row_cong [OF inputs1 row1, of rnd "snd ?sk1"] by simp
  have rest: "action_row (actions (fst (fold ?f [Suc i..<entity_count s] (?f i ?sk1)))) i
      = action_row (actions (fst (?f i ?sk1))) i"
    using fold_preserve [where V = "\<lambda>sk. action_row (actions (fst sk)) i" and f = ?f
        and js = "[Suc i..<entity_count s]" and s = "?f i ?sk1"]
    by (simp add: UtilitySystem_entity_other)
  have "UtilitySystem_Update rnd (s, k) = fold ?f [Suc i..<entity_count s] (?f i ?sk1)"
    using assms by (simp add: UtilitySystem_Update_def fold_upt_split)
  then show ?thesis using rest step k1 by auto
qed

lemma UtilitySystem_entity_alive_row:
  assumes "well_formed s" "i < entity_count s" "is_alive (health s) ! i"
  shows "current_action (actions (fst (UtilitySystem_entity rnd i (s, k)))) ! i = snd (decide s i)"
    and "action_utility (actions (fst (UtilitySystem_entity rnd i (s, k)))) ! i = fst (decide s i)"
  using assms
  by (simp_all add: UtilitySystem_entity_def set_target_def write_decision_def Let_def
      well_formed_def)

lemma UtilitySystem_Update_decision:
  assumes "well_formed s" "i < entity_count s" "is_alive (health s) ! i"
  shows "current_action (actions (fst (UtilitySystem_Update rnd (s, k)))) ! i = snd (decide s i)"
    and "action_utility (actions (fst (UtilitySystem_Update rnd (s, k)))) ! i = fst (decide s i)"
proof -
  obtain k' where row: "action_row (actions (fst (UtilitySystem_Update rnd (s, k)))) i
      = action_row (actions (fst (UtilitySystem_entity rnd i (s, k')))) i"
    using UtilitySystem_Update_row [OF assms(2)] by blast
  show "current_action (actions (fst (UtilitySystem_Update rnd (s, k)))) ! i = snd (decide s i)"
    using row UtilitySystem_entity_alive_row(1) [OF assms, of rnd k']
    by (simp add: action_row_def)
  show "action_utility (actions (fst (UtilitySystem_Update rnd (s, k)))) ! i = fst (decide s i)"
    using row UtilitySystem_entity_alive_row(2) [OF assms, of rnd k']
    by (simp add: action_row_def)
qed


lemma sel_idle: "e \<le> 0 \<Longrightarrow> s \<le> 0 \<Longrightarrow> f \<le> 0 \<Longrightarrow> x \<le> 0 \<Longrightarrow> a \<le> 0 \<Longrightarrow> select_action e s f x a = (0, IDLE)"
  by (simp add: select_action_def Let_def)
lemma sel_eat: "0 < e \<Longrightarrow> s \<le> e \<Longrightarrow> f \<le> e \<Longrightarrow> x \<le> e \<Longrightarrow> a \<le> e \<Longrightarrow> select_action e s f x a = (e, EAT)"
  by (simp add: select_action_def Let_def)
lemma sel_sleep: "0 < s \<Longrightarrow> e < s \<Longrightarrow> f \<le> s \<Longrightarrow> x \<le> s \<Longrightarrow> a \<le> s \<Longrightarrow> select_action e s f x a = (s, SLEEP)"
  by (simp add: select_action_def Let_def)
lemma sel_flee: "0 < f \<Longrightarrow> e < f \<Longrightarrow> s < f \<Longrightarrow> x \<le> f \<Longrightarrow> a \<le> f \<Longrightarrow> select_action e s f x a = (f, FLEE)"
  by (simp add: select_action_def Let_def)
lemma sel_explore: "0 < x \<Longrightarrow> e < x \<Longrightarrow> s < x \<Longrightarrow> f < x \<Longrightarrow> a \<le> x \<Longrightarrow> select_action e s f x a = (x, EXPLORE)"
  by (simp add: select_action_def Let_def)
lemma sel_attack: "0 < a \<Longrightarrow> e < a \<Longrightarrow> s < a \<Longrightarrow> f < a \<Longrightarrow> x < a \<Longrightarrow> select_action e s f x a = (a, ATTACK)"
  by (simp add: select_action_def Let_def)

lemma starving_exhausted:
  assumes "hunger (needs s) ! i = 1" "energy (needs s) ! i = 0"
  shows "snd (decide s i) = (if CalculateFleeUtility s i > 1 then FLEE else EAT)"
proof -
  have e: "CalculateEatUtility s i = 1" and sl: "CalculateSleepUtility s i = 1"
    and x: "CalculateExploreUtility s i = 0" and a: "CalculateAttackUtility s i = 0"
    using assms
    by (simp_all add: CalculateEatUtility_def CalculateSleepUtility_def
        CalculateExploreUtility_def CalculateAttackUtility_def QuadraticCurve_def)
  show ?thesis
  proof (cases "CalculateFleeUtility s i > 1")
    case True
    then show ?thesis unfolding decide_def e sl x a by (simp add: sel_flee)
  next
    case False
    then show ?thesis unfolding decide_def e sl x a by (simp add: sel_eat)
  qed
qed

subsection \<open>What each pass leaves untouched\<close>
lemma perceive_target_inputs:
  "perception_inputs (perceive_target observer target state) = perception_inputs state"
  "spatial_grid (perceive_target observer target state) = spatial_grid state"
  "perception (perceive_target observer target state) = perception state"
  by (simp_all add: perceive_target_def perception_inputs_def)

lemma fold_perceive_target_inputs:
  "perception_inputs (fold (perceive_target observer) ts state) = perception_inputs state"
  "spatial_grid (fold (perceive_target observer) ts state) = spatial_grid state"
  "perception (fold (perceive_target observer) ts state) = perception state"
  by (rule fold_preserve, rule perceive_target_inputs)+

lemma perceive_cell_inputs:
  "perception_inputs (perceive_cell observer c state) = perception_inputs state"
  "spatial_grid (perceive_cell observer c state) = spatial_grid state"
  "perception (perceive_cell observer c state) = perception state"
  by (simp_all add: perceive_cell_def fold_perceive_target_inputs)

lemma fold_perceive_cell_inputs:
  "perception_inputs (fold (perceive_cell observer) cs state) = perception_inputs state"
  "spatial_grid (fold (perceive_cell observer) cs state) = spatial_grid state"
  "perception (fold (perceive_cell observer) cs state) = perception state"
  by (rule fold_preserve, rule perceive_cell_inputs)+

lemma perceive_observer_inputs:
  "perception_inputs (perceive_observer observer state) = perception_inputs state"
  "spatial_grid (perceive_observer observer state) = spatial_grid state"
proof -
  let ?s = "fold (perceive_cell observer)
      (query_cells (position_x (transforms state) ! observer)
         (position_y (transforms state) ! observer)) state"
  have "perception_inputs ?s = perception_inputs state" "perception ?s = perception state"
    "spatial_grid ?s = spatial_grid state"
    by (rule fold_perceive_cell_inputs)+
  then show "perception_inputs (perceive_observer observer state) = perception_inputs state"
    "spatial_grid (perceive_observer observer state) = spatial_grid state"
    by (simp_all add: perceive_observer_def Let_def perception_inputs_def)
qed

lemma grid_insert_entity_inputs:
  "perception_inputs (grid_insert_entity i state) = perception_inputs state"
  "perception (grid_insert_entity i state) = perception state"
  "stimulus_buffer (grid_insert_entity i state) = stimulus_buffer state"
  by (simp_all add: grid_insert_entity_def perception_inputs_def)

lemma rebuild_grid_inputs:
  "perception_inputs (rebuild_grid state) = perception_inputs state"
  "perception (rebuild_grid state) = perception state"
  "stimulus_buffer (rebuild_grid state) = stimulus_buffer state"
proof -
  let ?s = "state\<lparr>spatial_grid := SpatialGrid_Clear (spatial_grid state)\<rparr>"
  have "perception_inputs (rebuild_grid state) = perception_inputs ?s"
    "perception (rebuild_grid state) = perception ?s"
    "stimulus_buffer (rebuild_grid state) = stimulus_buffer ?s"
    unfolding rebuild_grid_def by (rule fold_preserve, rule grid_insert_entity_inputs)+
  then show "perception_inputs (rebuild_grid state) = perception_inputs state"
    "perception (rebuild_grid state) = perception state"
    "stimulus_buffer (rebuild_grid state) = stimulus_buffer state"
    by (simp_all add: perception_inputs_def)
qed

lemma PerceptionSystem_Update_inputs:
  "perception_inputs (PerceptionSystem_Update state) = perception_inputs state"
proof -
  let ?s = "(rebuild_grid state)\<lparr>stimulus_buffer :=
      StimulusBuffer_Clear (stimulus_buffer (rebuild_grid state))\<rparr>"
  have "perception_inputs (fold perceive_observer [0..<entity_count ?s] ?s) = perception_inputs ?s"
    by (rule fold_preserve, rule perceive_observer_inputs)
  moreover have "perception_inputs ?s = perception_inputs state"
    using rebuild_grid_inputs(1) [of state]
    by (simp add: perception_inputs_def StimulusBuffer_Clear_def)
  ultimately show ?thesis by (simp add: PerceptionSystem_Update_def Let_def)
qed

lemma add_velocity_inputs: "kinetic_inputs (add_velocity i ax ay state) = kinetic_inputs state"
  by (simp add: add_velocity_def kinetic_inputs_def transform_sizes_def)

lemma apply_action_inputs: "kinetic_inputs (apply_action dt i state) = kinetic_inputs state"
  using add_velocity_inputs
  by (simp add: apply_action_def Let_def kinetic_inputs_def transform_sizes_def)

lemma clamp_speed_inputs: "kinetic_inputs (clamp_speed i state) = kinetic_inputs state"
  by (simp add: clamp_speed_def Let_def kinetic_inputs_def transform_sizes_def)

lemma integrate_position_inputs:
  "kinetic_inputs (integrate_position dt i state) = kinetic_inputs state"
  by (simp add: integrate_position_def kinetic_inputs_def transform_sizes_def)

lemma KineticSystem_entity_inputs:
  "kinetic_inputs (KineticSystem_entity dt i state) = kinetic_inputs state"
  by (simp add: KineticSystem_entity_def integrate_position_inputs clamp_speed_inputs
      apply_action_inputs)

lemma KineticSystem_Update_inputs:
  "kinetic_inputs (KineticSystem_Update dt state) = kinetic_inputs state"
  unfolding KineticSystem_Update_def by (rule fold_preserve, rule KineticSystem_entity_inputs)

lemma NeedsSystem_entity_inputs:
  "drive_inputs (fst (NeedsSystem_entity rnd dt i sk)) = drive_inputs (fst sk)"
  by (simp add: NeedsSystem_entity_def Let_def drive_inputs_def needs_sizes_def)

lemma NeedsSystem_Update_inputs:
  "drive_inputs (fst (NeedsSystem_Update rnd dt sk)) = drive_inputs (fst sk)"
  unfolding NeedsSystem_Update_def
  by (rule fold_preserve [where V = "\<lambda>sk. drive_inputs (fst sk)"])
     (rule NeedsSystem_entity_inputs)

subsection \<open>Well-formedness is preserved\<close>

lemma PerceptionSystem_Update_frame:
  "entity_count (PerceptionSystem_Update s) = entity_count s"
  "transforms (PerceptionSystem_Update s) = transforms s"
  "needs (PerceptionSystem_Update s) = needs s"
  "actions (PerceptionSystem_Update s) = actions s"
  "health (PerceptionSystem_Update s) = health s"
  "view_range (perception (PerceptionSystem_Update s)) = view_range (perception s)"
  "view_angle (perception (PerceptionSystem_Update s)) = view_angle (perception s)"
  "length (visible_entity_count (perception (PerceptionSystem_Update s)))
     = length (visible_entity_count (perception s))"
  "length (visible_entities (stimulus_buffer (PerceptionSystem_Update s)))
     = length (visible_entities (stimulus_buffer s))"
  using PerceptionSystem_Update_inputs [of s] by (simp_all add: perception_inputs_def)

lemma UtilitySystem_Update_frame:
  "entity_count (fst (UtilitySystem_Update rnd sk)) = entity_count (fst sk)"
  "transforms (fst (UtilitySystem_Update rnd sk)) = transforms (fst sk)"
  "perception (fst (UtilitySystem_Update rnd sk)) = perception (fst sk)"
  "needs (fst (UtilitySystem_Update rnd sk)) = needs (fst sk)"
  "health (fst (UtilitySystem_Update rnd sk)) = health (fst sk)"
  "spatial_grid (fst (UtilitySystem_Update rnd sk)) = spatial_grid (fst sk)"
  "stimulus_buffer (fst (UtilitySystem_Update rnd sk)) = stimulus_buffer (fst sk)"
  "action_sizes (actions (fst (UtilitySystem_Update rnd sk))) = action_sizes (actions (fst sk))"
  using UtilitySystem_Update_inputs [of rnd sk] by (simp_all add: decision_inputs_def)

lemma KineticSystem_Update_frame:
  "entity_count (KineticSystem_Update dt s) = entity_count s"
  "perception (KineticSystem_Update dt s) = perception s"
  "needs (KineticSystem_Update dt s) = needs s"
  "actions (KineticSystem_Update dt s) = actions s"
  "health (KineticSystem_Update dt s) = health s"
  "spatial_grid (KineticSystem_Update dt s) = spatial_grid s"
  "stimulus_buffer (KineticSystem_Update dt s) = stimulus_buffer s"
  "transform_sizes (transforms (KineticSystem_Update dt s)) = transform_sizes (transforms s)"
  using KineticSystem_Update_inputs [of dt s] by (simp_all add: kinetic_inputs_def)

lemma NeedsSystem_Update_frame:
  "entity_count (fst (NeedsSystem_Update rnd dt sk)) = entity_count (fst sk)"
  "transforms (fst (NeedsSystem_Update rnd dt sk)) = transforms (fst sk)"
  "perception (fst (NeedsSystem_Update rnd dt sk)) = perception (fst sk)"
  "actions (fst (NeedsSystem_Update rnd dt sk)) = actions (fst sk)"
  "health (fst (NeedsSystem_Update rnd dt sk)) = health (fst sk)"
  "spatial_grid (fst (NeedsSystem_Update rnd dt sk)) = spatial_grid (fst sk)"
  "stimulus_buffer (fst (NeedsSystem_Update rnd dt sk)) = stimulus_buffer (fst sk)"
  "needs_sizes (needs (fst (NeedsSystem_Update rnd dt sk))) = needs_sizes (needs (fst sk))"
  using NeedsSystem_Update_inputs [of rnd dt sk] by (simp_all add: drive_inputs_def)

lemma PerceptionSystem_Update_well_formed:
  "well_formed s \<Longrightarrow> well_formed (PerceptionSystem_Update s)"
  by (simp add: well_formed_def PerceptionSystem_Update_frame)

lemma UtilitySystem_Update_well_formed:
  "well_formed (fst sk) \<Longrightarrow> well_formed (fst (UtilitySystem_Update rnd sk))"
  using UtilitySystem_Update_frame(8) [of rnd sk]
  by (simp add: well_formed_def UtilitySystem_Update_frame(1-7) action_sizes_def)

lemma KineticSystem_Update_well_formed:
  "well_formed s \<Longrightarrow> well_formed (KineticSystem_Update dt s)"
  using KineticSystem_Update_frame(8) [of dt s]
  by (simp add: well_formed_def KineticSystem_Update_frame(1-7) transform_sizes_def)

lemma NeedsSystem_Update_well_formed:
  "well_formed (fst sk) \<Longrightarrow> well_formed (fst (NeedsSystem_Update rnd dt sk))"
  using NeedsSystem_Update_frame(8) [of rnd dt sk]
  by (simp add: well_formed_def NeedsSystem_Update_frame(1-7) needs_sizes_def)

lemma Frame_well_formed: "well_formed (fst sk) \<Longrightarrow> well_formed (fst (Frame rnd dt sk))"
  by (simp add: Frame_def Let_def NeedsSystem_Update_well_formed KineticSystem_Update_well_formed
      UtilitySystem_Update_well_formed PerceptionSystem_Update_well_formed)

lemma Frame_frame:
  "entity_count (fst (Frame rnd dt sk)) = entity_count (fst sk)"
  "health (fst (Frame rnd dt sk)) = health (fst sk)"
  by (simp_all add: Frame_def Let_def NeedsSystem_Update_frame KineticSystem_Update_frame
      UtilitySystem_Update_frame PerceptionSystem_Update_frame)

lemma run_frames_well_formed:
  "well_formed (fst sk) \<Longrightarrow> well_formed (fst (run_frames rnd dt n sk))"
  by (induction n) (simp_all add: Frame_well_formed)

lemma run_frames_frame:
  "entity_count (fst (run_frames rnd dt n sk)) = entity_count (fst sk)"
  "health (fst (run_frames rnd dt n sk)) = health (fst sk)"
  by (induction n) (simp_all add: Frame_frame)

subsection \<open>Initialisation\<close>
lemma length_resize: "length (resize count v xs) = count"
  by (simp add: resize_def)

lemma GameState_Initialize_well_formed: "well_formed (GameState_Initialize count state)"
  by (simp add: well_formed_def GameState_Initialize_def TransformComponents_Resize_def
      PerceptionComponents_Resize_def NeedsComponents_Resize_def ActionComponents_Resize_def
      HealthComponents_Resize_def StimulusBuffer_Resize_def length_resize)

lemma init_entity_well_formed: "well_formed s \<Longrightarrow> well_formed (init_entity sample i s)"
  by (simp add: well_formed_def init_entity_def)

lemma init_entity_count: "entity_count (init_entity sample i s) = entity_count s"
  by (simp add: init_entity_def)

lemma InitializeEntities_well_formed: "well_formed (InitializeEntities sample count state)"
  unfolding InitializeEntities_def
  by (rule fold_invariant [where P = well_formed])
     (simp_all add: init_entity_well_formed GameState_Initialize_well_formed)

lemma InitializeEntities_count: "entity_count (InitializeEntities sample count state) = count"
proof -
  have "entity_count (InitializeEntities sample count state)
      = entity_count (GameState_Initialize count state)"
    unfolding InitializeEntities_def by (rule fold_preserve, rule init_entity_count)
  then show ?thesis by (simp add: GameState_Initialize_def)
qed

subsection \<open>No move-to-target action\<close>

lemma notin_set_update: "v \<noteq> a \<Longrightarrow> a \<notin> set xs \<Longrightarrow> a \<notin> set (xs[i := v])"
  using set_update_subset_insert [of xs i v] by auto

lemma select_action_not_move:
  "snd (select_action e s f x a) \<noteq> MOVE_TO_TARGET" "snd (select_action e s f x a) \<noteq> COUNT"
  by (simp_all add: select_action_def Let_def)

lemma UtilitySystem_entity_no_move:
  "no_move_to_target (fst sk) \<Longrightarrow> no_move_to_target (fst (UtilitySystem_entity rnd j sk))"
  by (simp add: UtilitySystem_entity_def set_target_def write_decision_def Let_def
      no_move_to_target_def decide_def notin_set_update select_action_not_move)

lemma UtilitySystem_Update_no_move:
  "no_move_to_target (fst sk) \<Longrightarrow> no_move_to_target (fst (UtilitySystem_Update rnd sk))"
  unfolding UtilitySystem_Update_def
  by (rule fold_invariant [where P = "\<lambda>sk. no_move_to_target (fst sk)"])
     (simp_all add: UtilitySystem_entity_no_move)

lemma Frame_no_move:
  "no_move_to_target (fst sk) \<Longrightarrow> no_move_to_target (fst (Frame rnd dt sk))"
proof -
  assume a: "no_move_to_target (fst sk)"
  have "no_move_to_target (PerceptionSystem_Update (fst sk))"
    using a by (simp add: no_move_to_target_def PerceptionSystem_Update_frame)
  then have "no_move_to_target
      (fst (UtilitySystem_Update rnd (PerceptionSystem_Update (fst sk), snd sk)))"
    using UtilitySystem_Update_no_move [of "(PerceptionSystem_Update (fst sk), snd sk)" rnd]
    by simp
  then show ?thesis
    by (simp add: Frame_def Let_def no_move_to_target_def NeedsSystem_Update_frame
        KineticSystem_Update_frame)
qed

lemma run_frames_no_move:
  "no_move_to_target (fst sk) \<Longrightarrow> no_move_to_target (fst (run_frames rnd dt n sk))"
  by (induction n) (simp_all add: Frame_no_move)

lemma init_entity_no_move:
  "no_move_to_target s \<Longrightarrow> no_move_to_target (init_entity sample i s)"
  by (simp add: init_entity_def no_move_to_target_def notin_set_update)

lemma InitializeEntities_no_move:
  "no_move_to_target (InitializeEntities sample count GameState_default)"
  unfolding InitializeEntities_def
proof (rule fold_invariant [where P = no_move_to_target])
  show "no_move_to_target (GameState_Initialize count GameState_default)"
    by (simp add: no_move_to_target_def GameState_Initialize_def GameState_default_def
        ActionComponents_Resize_def resize_def)
qed (simp add: init_entity_no_move)

lemma replicate_update_same: "(replicate n x)[i := x] = replicate n x"
  by (metis length_replicate list_update_beyond list_update_id not_le_imp_less nth_replicate)

lemma InitializeEntities_idle:
  "current_action (actions (InitializeEntities sample count GameState_default))
     = replicate count IDLE"
  unfolding InitializeEntities_def
proof (rule fold_invariant
    [where P = "\<lambda>s. current_action (actions s) = replicate count IDLE"])
  show "current_action (actions (GameState_Initialize count GameState_default))
      = replicate count IDLE"
    by (simp add: GameState_Initialize_def GameState_default_def ActionComponents_Resize_def
        resize_def)
qed (simp add: init_entity_def replicate_update_same)

lemma no_move_nth:
  "no_move_to_target s \<Longrightarrow> well_formed s \<Longrightarrow> j < entity_count s
   \<Longrightarrow> current_action (actions s) ! j \<noteq> MOVE_TO_TARGET"
  by (metis no_move_to_target_def nth_mem well_formed_def)

lemma lone_agent_facts:
  "well_formed (lone_agent h e sf c)" "entity_count (lone_agent h e sf c) = 1"
  "is_alive (health (lone_agent h e sf c)) ! 0"
  by (simp_all add: well_formed_def lone_agent_def GameState_Initialize_def GameState_default_def
        TransformComponents_Resize_def PerceptionComponents_Resize_def
        ActionComponents_Resize_def HealthComponents_Resize_def StimulusBuffer_Resize_def
        resize_def)

subsection \<open>The targets the decision stage writes\<close>

lemma UtilitySystem_entity_attack:
  assumes "well_formed s" "i < entity_count s" "is_alive (health s) ! i"
    "snd (decide s i) = ATTACK" "visible_entities (stimulus_buffer s) ! i = b # rest"
  shows "action_row (actions (fst (UtilitySystem_entity rnd i (s, k)))) i
     = (ATTACK, fst (decide s i), b, position_x (transforms s) ! b,
        position_y (transforms s) ! b, target_z (actions s) ! i)"
  using assms
  by (simp add: UtilitySystem_entity_def set_target_def write_decision_def Let_def
      well_formed_def action_row_def)

lemma UtilitySystem_entity_explore:
  assumes "well_formed s" "i < entity_count s" "is_alive (health s) ! i"
    "snd (decide s i) = EXPLORE"
  shows "action_row (actions (fst (UtilitySystem_entity rnd i (s, k)))) i
     = (EXPLORE, fst (decide s i), target_entity (actions s) ! i,
        position_x (transforms s) ! i + real_of_int (int (rnd k mod 20) - 10),
        position_y (transforms s) ! i + real_of_int (int (rnd (k + 1) mod 20) - 10),
        target_z (actions s) ! i)"
  using assms
  by (simp add: UtilitySystem_entity_def set_target_def write_decision_def Let_def
      well_formed_def action_row_def)

lemma rand_offset_bounds: "- 10 \<le> int (r mod 20) - 10 \<and> int (r mod 20) - 10 \<le> 9"
proof -
  have "r mod 20 < 20" by simp
  then show ?thesis by linarith
qed

lemma hunter_and_prey_facts:
  "well_formed hunter_and_prey" "entity_count hunter_and_prey = 2"
  "is_alive (health hunter_and_prey) ! 0"
  "visible_entities (stimulus_buffer hunter_and_prey) ! 0 = [1]"
  "position_x (transforms hunter_and_prey) ! 1 = 50"
  "position_y (transforms hunter_and_prey) ! 1 = 50"
  by (simp_all add: well_formed_def hunter_and_prey_def GameState_Initialize_def
        GameState_default_def PerceptionComponents_Resize_def
        ActionComponents_Resize_def HealthComponents_Resize_def resize_def numeral_2_eq_2)

lemma hunter_decides_attack: "decide hunter_and_prey 0 = (2 / 5, ATTACK)"
  by (simp add: decide_def CalculateEatUtility_def CalculateSleepUtility_def
      CalculateFleeUtility_def CalculateExploreUtility_def CalculateAttackUtility_def
      QuadraticCurve_def hunter_and_prey_def sel_attack)

lemma explorer_decides_explore: "decide (lone_agent 0 1 1 1) 0 = (1, EXPLORE)"
  by (simp add: decide_def CalculateEatUtility_def CalculateSleepUtility_def
      CalculateFleeUtility_def CalculateExploreUtility_def CalculateAttackUtility_def
      QuadraticCurve_def lone_agent_def sel_explore)

subsection \<open>The kinematics stage\<close>

lemma add_velocity_other:
  "j \<noteq> i \<Longrightarrow> transform_row (transforms (add_velocity j ax ay s)) i = transform_row (transforms s) i"
  by (simp add: add_velocity_def transform_row_def)

lemma apply_action_other:
  "j \<noteq> i \<Longrightarrow> transform_row (transforms (apply_action dt j s)) i = transform_row (transforms s) i"
  by (simp add: apply_action_def Let_def add_velocity_def transform_row_def)

lemma clamp_speed_other:
  "j \<noteq> i \<Longrightarrow> transform_row (transforms (clamp_speed j s)) i = transform_row (transforms s) i"
  by (simp add: clamp_speed_def Let_def transform_row_def)

lemma integrate_position_other:
  "j \<noteq> i \<Longrightarrow> transform_row (transforms (integrate_position dt j s)) i
     = transform_row (transforms s) i"
  by (simp add: integrate_position_def transform_row_def)

lemma KineticSystem_entity_other:
  "j \<noteq> i \<Longrightarrow> transform_row (transforms (KineticSystem_entity dt j s)) i
     = transform_row (transforms s) i"
  by (simp add: KineticSystem_entity_def integrate_position_other clamp_speed_other
      apply_action_other)

lemma KineticSystem_entity_dead:
  "\<not> is_alive (health s) ! j \<Longrightarrow> KineticSystem_entity dt j s = s"
  by (simp add: KineticSystem_entity_def)

lemma apply_action_idle:
  assumes "current_action (actions s) ! i = IDLE \<or> current_action (actions s) ! i = SLEEP"
    "i < length (velocity_x (transforms s))" "i < length (velocity_y (transforms s))"
  shows "velocity_x (transforms (apply_action dt i s)) ! i = velocity_x (transforms s) ! i * 0.9"
    and "velocity_y (transforms (apply_action dt i s)) ! i = velocity_y (transforms s) ! i * 0.9"
  using assms by (auto simp add: apply_action_def Let_def)

lemma clamp_speed_velocity:
  assumes "i < length (velocity_x (transforms s))" "i < length (velocity_y (transforms s))"
  shows "(velocity_x (transforms (clamp_speed i s)) ! i, velocity_y (transforms (clamp_speed i s)) ! i)
     = (let dx = velocity_x (transforms s) ! i; dy = velocity_y (transforms s) ! i;
            speed_sq = dx * dx + dy * dy
        in if speed_sq > MAX_SPEED * MAX_SPEED
           then ((dx / sqrt speed_sq) * MAX_SPEED, (dy / sqrt speed_sq) * MAX_SPEED)
           else (dx, dy))"
  using assms by (simp add: clamp_speed_def Let_def)

lemma integrate_position_velocity:
  "velocity_x (transforms (integrate_position dt i s)) = velocity_x (transforms s)"
  "velocity_y (transforms (integrate_position dt i s)) = velocity_y (transforms s)"
  by (simp_all add: integrate_position_def)

lemma KineticSystem_entity_idle:
  assumes "is_alive (health s) ! i"
    "current_action (actions s) ! i = IDLE \<or> current_action (actions s) ! i = SLEEP"
    "i < length (velocity_x (transforms s))" "i < length (velocity_y (transforms s))"
  shows "(velocity_x (transforms (KineticSystem_entity dt i s)) ! i,
          velocity_y (transforms (KineticSystem_entity dt i s)) ! i)
     = damped_velocity (velocity_x (transforms s) ! i) (velocity_y (transforms s) ! i)"
proof -
  let ?a = "apply_action dt i s"
  have sz: "transform_sizes (transforms ?a) = transform_sizes (transforms s)"
    using apply_action_inputs [of dt i s] by (simp add: kinetic_inputs_def)
  then have l: "i < length (velocity_x (transforms ?a))" "i < length (velocity_y (transforms ?a))"
    using assms(3,4) by (simp_all add: transform_sizes_def)
  show ?thesis
    using assms(1) clamp_speed_velocity [OF l] apply_action_idle [OF assms(2-4), of dt]
    by (simp add: KineticSystem_entity_def integrate_position_velocity damped_velocity_def)
qed

lemma KineticSystem_Update_idle:
  assumes "well_formed s" "i < entity_count s" "is_alive (health s) ! i"
    "current_action (actions s) ! i = IDLE \<or> current_action (actions s) ! i = SLEEP"
  shows "(velocity_x (transforms (KineticSystem_Update dt s)) ! i,
          velocity_y (transforms (KineticSystem_Update dt s)) ! i)
     = damped_velocity (velocity_x (transforms s) ! i) (velocity_y (transforms s) ! i)"
proof -
  let ?f = "KineticSystem_entity dt"
  let ?s1 = "fold ?f [0..<i] s"
  have inputs1: "kinetic_inputs ?s1 = kinetic_inputs s"
    by (rule fold_preserve, rule KineticSystem_entity_inputs)
  have row1: "transform_row (transforms ?s1) i = transform_row (transforms s) i"
    by (rule fold_preserve [where V = "\<lambda>s. transform_row (transforms s) i"])
       (simp add: KineticSystem_entity_other)
  have alive1: "is_alive (health ?s1) ! i"
    and act1: "current_action (actions ?s1) ! i = IDLE \<or> current_action (actions ?s1) ! i = SLEEP"
    and l1: "i < length (velocity_x (transforms ?s1))" "i < length (velocity_y (transforms ?s1))"
    using inputs1 assms
    by (simp_all add: kinetic_inputs_def transform_sizes_def well_formed_def)
  have step: "(velocity_x (transforms (?f i ?s1)) ! i, velocity_y (transforms (?f i ?s1)) ! i)
      = damped_velocity (velocity_x (transforms s) ! i) (velocity_y (transforms s) ! i)"
    using KineticSystem_entity_idle [OF alive1 act1 l1, of dt] row1
    by (simp add: transform_row_def)
  have rest: "transform_row (transforms (fold ?f [Suc i..<entity_count s] (?f i ?s1))) i
      = transform_row (transforms (?f i ?s1)) i"
    by (rule fold_preserve [where V = "\<lambda>s. transform_row (transforms s) i"])
       (simp add: KineticSystem_entity_other)
  have "KineticSystem_Update dt s = fold ?f [Suc i..<entity_count s] (?f i ?s1)"
    using assms(2) by (simp add: KineticSystem_Update_def fold_upt_split)
  then show ?thesis using rest step by (simp add: transform_row_def)
qed

lemma damped_velocity_slow:
  "(vx * 0.9) * (vx * 0.9) + (vy * 0.9) * (vy * 0.9) \<le> 25
   \<Longrightarrow> damped_velocity vx vy = (vx * 0.9, vy * 0.9)"
  by (simp add: damped_velocity_def Let_def MAX_SPEED_def)

lemma damped_velocity_ten: "damped_velocity 10 0 = (5, 0)"
proof -
  have "sqrt 81 = 9" by (rule real_sqrt_unique) simp_all
  then show ?thesis by (simp add: damped_velocity_def Let_def MAX_SPEED_def)
qed

lemma drifter_facts:
  "well_formed (drifter vx vy)" "entity_count (drifter vx vy) = 1"
  "is_alive (health (drifter vx vy)) ! 0"
  "current_action (actions (drifter vx vy)) ! 0 = IDLE"
  "velocity_x (transforms (drifter vx vy)) ! 0 = vx"
  "velocity_y (transforms (drifter vx vy)) ! 0 = vy"
  by (simp_all add: well_formed_def drifter_def GameState_Initialize_def GameState_default_def
        PerceptionComponents_Resize_def NeedsComponents_Resize_def
        ActionComponents_Resize_def HealthComponents_Resize_def StimulusBuffer_Resize_def
        resize_def)

subsection \<open>The ranges of needs and positions\<close>

lemma list_all_update:
  assumes "list_all P xs" "i < length xs \<Longrightarrow> P v"
  shows "list_all P (xs[i := v])"
proof (cases "i < length xs")
  case True
  then show ?thesis
    using assms set_update_subset_insert [of xs i v] by (auto simp add: list_all_iff)
next
  case False
  then show ?thesis using assms(1) by (simp add: list_update_beyond)
qed

lemma list_all_nth: "list_all P xs \<Longrightarrow> i < length xs \<Longrightarrow> P (xs ! i)"
  by (simp add: list_all_length)

lemma apply_action_position:
  "position_x (transforms (apply_action dt i s)) = position_x (transforms s)"
  "position_y (transforms (apply_action dt i s)) = position_y (transforms s)"
  by (simp_all add: apply_action_def Let_def add_velocity_def)

lemma clamp_speed_position:
  "position_x (transforms (clamp_speed i s)) = position_x (transforms s)"
  "position_y (transforms (clamp_speed i s)) = position_y (transforms s)"
  by (simp_all add: clamp_speed_def Let_def)

lemma integrate_position_in_bounds: "in_bounds s \<Longrightarrow> in_bounds (integrate_position dt i s)"
  by (simp add: in_bounds_def integrate_position_def list_all_update)

lemma KineticSystem_entity_in_bounds: "in_bounds s \<Longrightarrow> in_bounds (KineticSystem_entity dt i s)"
proof -
  assume a: "in_bounds s"
  have n: "needs (clamp_speed i (apply_action dt i s)) = needs s"
    using clamp_speed_inputs [of i "apply_action dt i s"] apply_action_inputs [of dt i s]
    by (simp add: kinetic_inputs_def)
  have "in_bounds (clamp_speed i (apply_action dt i s))"
    using a by (simp add: in_bounds_def n clamp_speed_position apply_action_position)
  then show ?thesis
    using a by (simp add: KineticSystem_entity_def integrate_position_in_bounds)
qed

lemma KineticSystem_Update_in_bounds: "in_bounds s \<Longrightarrow> in_bounds (KineticSystem_Update dt s)"
  unfolding KineticSystem_Update_def
  by (rule fold_invariant [where P = in_bounds]) (simp_all add: KineticSystem_entity_in_bounds)

lemma NeedsSystem_entity_writes:
  assumes "0 \<le> dt" "is_alive (health (fst sk)) ! i" "in_bounds (fst sk)"
  shows "\<exists>H E S C. needs (fst (NeedsSystem_entity rnd dt i sk))
        = (needs (fst sk))\<lparr>hunger := (hunger (needs (fst sk)))[i := H],
            energy := (energy (needs (fst sk)))[i := E],
            safety := (safety (needs (fst sk)))[i := S],
            curiosity := (curiosity (needs (fst sk)))[i := C]\<rparr>
      \<and> (i < length (hunger (needs (fst sk))) \<longrightarrow> 0 \<le> H \<and> H \<le> 1)
      \<and> (i < length (energy (needs (fst sk))) \<longrightarrow> 0 \<le> E \<and> E \<le> 1)
      \<and> (i < length (safety (needs (fst sk))) \<longrightarrow> 0 \<le> S \<and> S \<le> 1)
      \<and> 0 \<le> C \<and> C \<le> 1"
proof -
  let ?n = "needs (fst sk)"
  let ?a = "current_action (actions (fst sk)) ! i"
  define H1 where "H1 = min 1 (hunger ?n ! i + 0.01 * dt)"
  define H where "H = (if ?a = EAT then max 0 (H1 - 0.15 * dt) else H1)"
  define E where "E = (if ?a = SLEEP then min 1 (energy ?n ! i + 0.1 * dt)
      else max 0 (energy ?n ! i - 0.02 * dt))"
  define S where "S = (if visible_entity_count (perception (fst sk)) ! i > 3
      then max 0 (safety ?n ! i - 0.05 * dt) else min 1 (safety ?n ! i + 0.03 * dt))"
  define C where "C = max 0 (min 1 (curiosity ?n ! i
      + real_of_int (int (rnd (snd sk) mod 100) - 50) * 0.001 * dt))"
  have eq: "needs (fst (NeedsSystem_entity rnd dt i sk))
        = ?n\<lparr>hunger := (hunger ?n)[i := H], energy := (energy ?n)[i := E],
            safety := (safety ?n)[i := S], curiosity := (curiosity ?n)[i := C]\<rparr>"
    using assms(2) by (simp add: NeedsSystem_entity_def Let_def H_def H1_def E_def S_def C_def)
  have h: "i < length (hunger ?n) \<Longrightarrow> 0 \<le> hunger ?n ! i \<and> hunger ?n ! i \<le> 1"
    and e: "i < length (energy ?n) \<Longrightarrow> 0 \<le> energy ?n ! i \<and> energy ?n ! i \<le> 1"
    and sf: "i < length (safety ?n) \<Longrightarrow> 0 \<le> safety ?n ! i \<and> safety ?n ! i \<le> 1"
    using assms(3) by (simp_all add: in_bounds_def list_all_length)
  have hb: "i < length (hunger ?n) \<longrightarrow> 0 \<le> H \<and> H \<le> 1"
  proof
    assume "i < length (hunger ?n)"
    then have "0 \<le> hunger ?n ! i \<and> hunger ?n ! i \<le> 1" by (rule h)
    then have "0 \<le> H1 \<and> H1 \<le> 1" using assms(1) by (simp add: H1_def)
    then show "0 \<le> H \<and> H \<le> 1" using assms(1) by (simp add: H_def)
  qed
  have eb: "i < length (energy ?n) \<longrightarrow> 0 \<le> E \<and> E \<le> 1"
  proof
    assume "i < length (energy ?n)"
    then have "0 \<le> energy ?n ! i \<and> energy ?n ! i \<le> 1" by (rule e)
    then show "0 \<le> E \<and> E \<le> 1" using assms(1) by (simp add: E_def)
  qed
  have sb: "i < length (safety ?n) \<longrightarrow> 0 \<le> S \<and> S \<le> 1"
  proof
    assume "i < length (safety ?n)"
    then have "0 \<le> safety ?n ! i \<and> safety ?n ! i \<le> 1" by (rule sf)
    then show "0 \<le> S \<and> S \<le> 1" using assms(1) by (simp add: S_def)
  qed
  have cb: "0 \<le> C \<and> C \<le> 1" by (simp add: C_def)
  show ?thesis using eq hb eb sb cb by blast
qed

lemma NeedsSystem_entity_in_bounds:
  assumes "0 \<le> dt" "in_bounds (fst sk)"
  shows "in_bounds (fst (NeedsSystem_entity rnd dt i sk))"
proof (cases "is_alive (health (fst sk)) ! i")
  case False
  then show ?thesis using assms(2) by (simp add: NeedsSystem_entity_def)
next
  case True
  obtain H E S C where eq: "needs (fst (NeedsSystem_entity rnd dt i sk))
        = (needs (fst sk))\<lparr>hunger := (hunger (needs (fst sk)))[i := H],
            energy := (energy (needs (fst sk)))[i := E],
            safety := (safety (needs (fst sk)))[i := S],
            curiosity := (curiosity (needs (fst sk)))[i := C]\<rparr>"
    and hb: "i < length (hunger (needs (fst sk))) \<longrightarrow> 0 \<le> H \<and> H \<le> 1"
    and eb: "i < length (energy (needs (fst sk))) \<longrightarrow> 0 \<le> E \<and> E \<le> 1"
    and sb: "i < length (safety (needs (fst sk))) \<longrightarrow> 0 \<le> S \<and> S \<le> 1"
    and cb: "0 \<le> C \<and> C \<le> 1"
    using NeedsSystem_entity_writes [OF assms(1) True assms(2), of rnd] by blast
  have tr: "transforms (fst (NeedsSystem_entity rnd dt i sk)) = transforms (fst sk)"
    using NeedsSystem_entity_inputs [of rnd dt i sk] by (simp add: drive_inputs_def)
  show ?thesis
    using assms(2) hb eb sb cb
    by (simp add: in_bounds_def eq tr list_all_update)
qed

lemma NeedsSystem_Update_in_bounds:
  "0 \<le> dt \<Longrightarrow> in_bounds (fst sk) \<Longrightarrow> in_bounds (fst (NeedsSystem_Update rnd dt sk))"
  unfolding NeedsSystem_Update_def
  by (rule fold_invariant [where P = "\<lambda>sk. in_bounds (fst sk)"])
     (simp_all add: NeedsSystem_entity_in_bounds)

lemma Frame_in_bounds:
  assumes "0 \<le> dt" "in_bounds (fst sk)"
  shows "in_bounds (fst (Frame rnd dt sk))"
proof -
  let ?p = "PerceptionSystem_Update (fst sk)"
  let ?u = "UtilitySystem_Update rnd (?p, snd sk)"
  let ?k = "KineticSystem_Update dt (fst ?u)"
  have "in_bounds ?p"
    using assms(2) by (simp add: in_bounds_def PerceptionSystem_Update_frame)
  then have "in_bounds (fst ?u)"
    by (simp add: in_bounds_def UtilitySystem_Update_frame)
  then have "in_bounds ?k" by (rule KineticSystem_Update_in_bounds)
  then have "in_bounds (fst (NeedsSystem_Update rnd dt (?k, snd ?u)))"
    using NeedsSystem_Update_in_bounds [OF assms(1), of "(?k, snd ?u)" rnd] by simp
  then show ?thesis by (simp add: Frame_def Let_def)
qed

lemma run_frames_in_bounds:
  "0 \<le> dt \<Longrightarrow> in_bounds (fst sk) \<Longrightarrow> in_bounds (fst (run_frames rnd dt n sk))"
  by (induction n) (simp_all add: Frame_in_bounds)

lemma init_entity_in_bounds:
  assumes "\<forall>m a b. a < b \<longrightarrow> a \<le> sample m a b \<and> sample m a b < b" "in_bounds s"
  shows "in_bounds (init_entity sample i s)"
proof -
  have u: "0 \<le> sample m 0 1 \<and> sample m 0 1 \<le> 1" for m
    using assms(1) [rule_format, of 0 1 m] by simp
  have p: "0 \<le> sample m 0 1000 \<and> sample m 0 1000 \<le> 1000" for m
    using assms(1) [rule_format, of 0 1000 m] by simp
  show ?thesis
    using assms(2) u p by (simp add: in_bounds_def init_entity_def list_all_update)
qed

lemma InitializeEntities_in_bounds:
  assumes "\<forall>m a b. a < b \<longrightarrow> a \<le> sample m a b \<and> sample m a b < b"
  shows "in_bounds (InitializeEntities sample count GameState_default)"
  unfolding InitializeEntities_def
proof (rule fold_invariant [where P = in_bounds])
  show "in_bounds (GameState_Initialize count GameState_default)"
    by (simp add: in_bounds_def GameState_Initialize_def GameState_default_def
        TransformComponents_Resize_def NeedsComponents_Resize_def resize_def list_all_iff)
qed (simp add: init_entity_in_bounds [OF assms])

subsection \<open>Grid coordinates\<close>

lemma c_rem_nonneg: "0 \<le> a \<Longrightarrow> c_rem a 100 = a mod 100"
  by (simp add: c_rem_def sgn_if)

lemma c_rem_neg: "a < 0 \<Longrightarrow> c_rem a 100 = - ((- a) mod 100)"
  by (simp add: c_rem_def sgn_if)

lemma c_rem_upper: "c_rem a 100 < 100"
proof (cases "0 \<le> a")
  case True
  then show ?thesis by (simp add: c_rem_nonneg)
next
  case False
  have "0 \<le> (- a) mod 100" by simp
  then have "c_rem a 100 \<le> 0" using False by (simp add: c_rem_neg)
  then show ?thesis by simp
qed

lemma c_rem_visited: "0 \<le> c_rem a 100 \<longleftrightarrow> 0 \<le> a \<or> 100 dvd a"
proof (cases "0 \<le> a")
  case True
  then show ?thesis by (simp add: c_rem_nonneg)
next
  case False
  have nn: "0 \<le> (- a) mod 100" by simp
  have "0 \<le> c_rem a 100 \<longleftrightarrow> (- a) mod 100 \<le> 0"
    using False by (simp add: c_rem_neg)
  also have "\<dots> \<longleftrightarrow> (- a) mod 100 = 0" using nn by linarith
  also have "\<dots> \<longleftrightarrow> 100 dvd a" by (simp add: dvd_eq_mod_eq_0 [symmetric])
  finally show ?thesis using False by simp
qed

lemma c_rem_value: "0 \<le> c_rem a 100 \<Longrightarrow> c_rem a 100 = a mod 100"
proof (cases "0 \<le> a")
  case True
  then show ?thesis by (simp add: c_rem_nonneg)
next
  case False
  assume "0 \<le> c_rem a 100"
  then have d: "100 dvd a" using False by (simp add: c_rem_visited)
  then have "(- a) mod 100 = 0" by (simp add: dvd_eq_mod_eq_0 [symmetric])
  moreover have "a mod 100 = 0" using d by (simp add: dvd_eq_mod_eq_0 [symmetric])
  ultimately show ?thesis using False by (simp add: c_rem_neg)
qed

lemma neighbor_cells_eq:
  "neighbor_cells gx gy =
     [(cx mod 100, cy mod 100). cx \<leftarrow> [gx - 1, gx, gx + 1], cy \<leftarrow> [gy - 1, gy, gy + 1],
        (0 \<le> cx \<or> 100 dvd cx) \<and> (0 \<le> cy \<or> 100 dvd cy)]"
proof -
  have one: "(let check_x = c_rem cx 100; check_y = c_rem cy 100
        in if check_x < 0 \<or> check_x \<ge> 100 \<or> check_y < 0 \<or> check_y \<ge> 100
           then [] else [(check_x, check_y)])
      = (if (0 \<le> cx \<or> 100 dvd cx) \<and> (0 \<le> cy \<or> 100 dvd cy)
         then [(cx mod 100, cy mod 100)] else [])" for cx cy
    using c_rem_upper [of cx] c_rem_upper [of cy] c_rem_visited [of cx] c_rem_visited [of cy]
      c_rem_value [of cx] c_rem_value [of cy]
    by (auto simp add: Let_def)
  show ?thesis
    unfolding neighbor_cells_def GRID_SIZE_def by (simp add: one)
qed

lemma static_cast_int_nonneg: "0 \<le> x \<Longrightarrow> static_cast_int (x / CELL_SIZE) = \<lfloor>x / 10\<rfloor>"
  by (simp add: static_cast_int_def CELL_SIZE_def)

lemma query_cells_5_5: "query_cells 5 5 = [(0, 0), (0, 1), (1, 0), (1, 1)]"
  by (simp add: query_cells_def neighbor_cells_eq static_cast_int_def CELL_SIZE_def)


subsection \<open>The rebuilt grid\<close>

lemma SpatialGrid_Insert_cells:
  "cells (SpatialGrid_Insert ident x y g) cx cy =
     cells g cx cy @ (if cell_index x = cx \<and> cell_index y = cy
                        \<and> 0 \<le> cx \<and> cx < 100 \<and> 0 \<le> cy \<and> cy < 100 then [ident] else [])"
  by (auto simp add: SpatialGrid_Insert_def cell_index_def Let_def GRID_SIZE_def)

lemma grid_insert_entity_cells:
  "cells (spatial_grid (grid_insert_entity i s)) cx cy =
     cells (spatial_grid s) cx cy
     @ filter (\<lambda>i. is_alive (health s) ! i
          \<and> cell_index (position_x (transforms s) ! i) = cx
          \<and> cell_index (position_y (transforms s) ! i) = cy
          \<and> 0 \<le> cx \<and> cx < 100 \<and> 0 \<le> cy \<and> cy < 100) [i]"
  by (simp add: grid_insert_entity_def SpatialGrid_Insert_cells)

lemma fold_grid_insert_entity_cells:
  "cells (spatial_grid (fold grid_insert_entity js s)) cx cy =
     cells (spatial_grid s) cx cy
     @ filter (\<lambda>i. is_alive (health s) ! i
          \<and> cell_index (position_x (transforms s) ! i) = cx
          \<and> cell_index (position_y (transforms s) ! i) = cy
          \<and> 0 \<le> cx \<and> cx < 100 \<and> 0 \<le> cy \<and> cy < 100) js"
proof (induction js arbitrary: s)
  case Nil
  show ?case by simp
next
  case (Cons j js)
  have same: "health (grid_insert_entity j s) = health s"
    "transforms (grid_insert_entity j s) = transforms s"
    using grid_insert_entity_inputs(1) [of j s] by (simp_all add: perception_inputs_def)
  show ?case
    using Cons.IH [of "grid_insert_entity j s"]
    by (simp add: same grid_insert_entity_cells)
qed

lemma rebuild_grid_cells:
  "cells (spatial_grid (rebuild_grid s)) cx cy =
     filter (\<lambda>i. is_alive (health s) ! i
          \<and> cell_index (position_x (transforms s) ! i) = cx
          \<and> cell_index (position_y (transforms s) ! i) = cy
          \<and> 0 \<le> cx \<and> cx < 100 \<and> 0 \<le> cy \<and> cy < 100) [0..<entity_count s]"
  unfolding rebuild_grid_def
  by (simp add: fold_grid_insert_entity_cells SpatialGrid_Clear_def)

subsection \<open>The visible sets\<close>

lemma seen_inputs:
  "perception_inputs s = perception_inputs s' \<Longrightarrow> seen s observer t = seen s' observer t"
  by (simp add: seen_def in_view_def perception_inputs_def)

lemma perceive_target_visible:
  "visible_entities (stimulus_buffer (perceive_target observer t s)) =
     (visible_entities (stimulus_buffer s))
       [observer := visible_entities (stimulus_buffer s) ! observer
                    @ filter (seen s observer) [t]]"
  by (simp add: perceive_target_def seen_def)

lemma append_update_twice:
  "(xs[i := xs ! i @ a])[i := xs[i := xs ! i @ a] ! i @ b] = xs[i := xs ! i @ a @ b]"
  by (cases "i < length xs") (simp_all add: list_update_beyond)

lemma fold_perceive_target_visible:
  "visible_entities (stimulus_buffer (fold (perceive_target observer) ts s)) =
     (visible_entities (stimulus_buffer s))
       [observer := visible_entities (stimulus_buffer s) ! observer
                    @ filter (seen s observer) ts]"
proof (induction ts arbitrary: s)
  case Nil
  show ?case by simp
next
  case (Cons t ts)
  let ?s' = "perceive_target observer t s"
  have sn: "seen ?s' observer = seen s observer"
    using seen_inputs [OF perceive_target_inputs(1), of observer t s observer] by auto
  let ?ve = "visible_entities (stimulus_buffer s)"
  let ?A = "filter (seen s observer) [t]"
  let ?B = "filter (seen s observer) ts"
  have "visible_entities (stimulus_buffer (fold (perceive_target observer) (t # ts) s))
      = visible_entities (stimulus_buffer (fold (perceive_target observer) ts ?s'))"
    by simp
  also have "\<dots> = (?ve[observer := ?ve ! observer @ ?A])
      [observer := ?ve[observer := ?ve ! observer @ ?A] ! observer @ ?B]"
    by (simp only: Cons.IH [of ?s'] sn perceive_target_visible)
  also have "\<dots> = ?ve[observer := ?ve ! observer @ ?A @ ?B]"
    by (rule append_update_twice)
  also have "?A @ ?B = filter (seen s observer) (t # ts)"
    by simp
  finally show ?case .
qed


lemma fold_perceive_cell_visible:
  "visible_entities (stimulus_buffer (fold (perceive_cell observer) cs s)) =
     (visible_entities (stimulus_buffer s))
       [observer := visible_entities (stimulus_buffer s) ! observer
          @ filter (seen s observer)
              (concat (map (\<lambda>c. cells (spatial_grid s) (fst c) (snd c)) cs))]"
proof (induction cs arbitrary: s)
  case Nil
  show ?case by simp
next
  case (Cons c cs)
  let ?s' = "perceive_cell observer c s"
  let ?ve = "visible_entities (stimulus_buffer s)"
  let ?A = "filter (seen s observer) (cells (spatial_grid s) (fst c) (snd c))"
  let ?B = "filter (seen s observer)
      (concat (map (\<lambda>c. cells (spatial_grid s) (fst c) (snd c)) cs))"
  have sn: "seen ?s' observer = seen s observer"
    using seen_inputs [OF perceive_cell_inputs(1), of observer c s observer] by auto
  have grid: "spatial_grid ?s' = spatial_grid s" by (rule perceive_cell_inputs)
  have v': "visible_entities (stimulus_buffer ?s') = ?ve[observer := ?ve ! observer @ ?A]"
    unfolding perceive_cell_def by (rule fold_perceive_target_visible)
  have "visible_entities (stimulus_buffer (fold (perceive_cell observer) (c # cs) s))
      = visible_entities (stimulus_buffer (fold (perceive_cell observer) cs ?s'))"
    by simp
  also have "\<dots> = (?ve[observer := ?ve ! observer @ ?A])
      [observer := ?ve[observer := ?ve ! observer @ ?A] ! observer @ ?B]"
    by (simp only: Cons.IH [of ?s'] sn grid v')
  also have "\<dots> = ?ve[observer := ?ve ! observer @ ?A @ ?B]"
    by (rule append_update_twice)
  also have "?A @ ?B = filter (seen s observer)
      (concat (map (\<lambda>c. cells (spatial_grid s) (fst c) (snd c)) (c # cs)))"
    by simp
  finally show ?case .
qed

lemma perceive_observer_dead:
  "\<not> is_alive (health s) ! observer \<Longrightarrow> perceive_observer observer s = s"
  by (simp add: perceive_observer_def)

lemma perceive_observer_visible:
  "is_alive (health s) ! observer \<Longrightarrow>
   visible_entities (stimulus_buffer (perceive_observer observer s)) =
     (visible_entities (stimulus_buffer s))
       [observer := visible_entities (stimulus_buffer s) ! observer
          @ filter (seen s observer) (candidates s observer)]"
  by (simp add: perceive_observer_def Let_def fold_perceive_cell_visible candidates_def)

lemma perceive_observer_other:
  "j \<noteq> observer \<Longrightarrow>
   visible_entities (stimulus_buffer (perceive_observer j s)) ! observer
     = visible_entities (stimulus_buffer s) ! observer"
  by (cases "is_alive (health s) ! j")
     (simp_all add: perceive_observer_dead perceive_observer_visible)

lemma candidates_inputs:
  "transforms s = transforms s' \<Longrightarrow> spatial_grid s = spatial_grid s'
   \<Longrightarrow> candidates s observer = candidates s' observer"
  by (simp add: candidates_def)

lemma PerceptionSystem_Update_visible:
  assumes "observer < entity_count s"
    "length (visible_entities (stimulus_buffer s)) = entity_count s"
  shows "visible_entities (stimulus_buffer (PerceptionSystem_Update s)) ! observer =
     (if is_alive (health s) ! observer
      then filter (seen s observer) (candidates (rebuild_grid s) observer) else [])"
proof -
  let ?g = "rebuild_grid s"
  let ?s0 = "?g\<lparr>stimulus_buffer := StimulusBuffer_Clear (stimulus_buffer ?g)\<rparr>"
  let ?V = "\<lambda>st. (perception_inputs st, spatial_grid st,
      visible_entities (stimulus_buffer st) ! observer)"
  let ?s1 = "fold perceive_observer [0..<observer] ?s0"
  let ?s2 = "perceive_observer observer ?s1"
  have in0: "perception_inputs ?s0 = perception_inputs s"
    using rebuild_grid_inputs(1) [of s]
    by (simp add: perception_inputs_def StimulusBuffer_Clear_def)
  have n0: "entity_count ?s0 = entity_count s"
    using in0 by (simp add: perception_inputs_def)
  have v0: "visible_entities (stimulus_buffer ?s0) ! observer = []"
    using assms rebuild_grid_inputs(3) [of s] by (simp add: StimulusBuffer_Clear_def)
  have other: "?V (perceive_observer j st) = ?V st" if "j \<noteq> observer" for j st
    using that by (simp add: perceive_observer_inputs perceive_observer_other)
  have V1: "?V ?s1 = ?V ?s0"
    by (rule fold_preserve [where V = ?V]) (simp add: other)
  then have in1: "perception_inputs ?s1 = perception_inputs s"
    and grid1: "spatial_grid ?s1 = spatial_grid ?g"
    and v1: "visible_entities (stimulus_buffer ?s1) ! observer = []"
    using in0 v0 by simp_all
  have len1: "observer < length (visible_entities (stimulus_buffer ?s1))"
    using in1 assms by (simp add: perception_inputs_def)
  have alive1: "is_alive (health ?s1) ! observer = is_alive (health s) ! observer"
    using in1 by (simp add: perception_inputs_def)
  have tr1: "transforms ?s1 = transforms ?g"
    using in1 rebuild_grid_inputs(1) [of s] by (simp add: perception_inputs_def)
  have v2: "visible_entities (stimulus_buffer ?s2) ! observer =
     (if is_alive (health s) ! observer
      then filter (seen s observer) (candidates ?g observer) else [])"
  proof (cases "is_alive (health s) ! observer")
    case True
    then have a: "is_alive (health ?s1) ! observer" using alive1 by simp
    have "seen ?s1 observer = seen s observer"
      using seen_inputs [OF in1, of observer] by auto
    moreover have "candidates ?s1 observer = candidates ?g observer"
      using tr1 grid1 by (rule candidates_inputs)
    ultimately show ?thesis
      using True len1 v1 by (simp add: perceive_observer_visible [OF a])
  next
    case False
    then have "\<not> is_alive (health ?s1) ! observer" using alive1 by simp
    then show ?thesis using False v1 by (simp add: perceive_observer_dead)
  qed
  have "?V (fold perceive_observer [Suc observer..<entity_count s] ?s2) = ?V ?s2"
    by (rule fold_preserve [where V = ?V]) (simp add: other)
  then have rest: "visible_entities (stimulus_buffer
      (fold perceive_observer [Suc observer..<entity_count s] ?s2)) ! observer
      = visible_entities (stimulus_buffer ?s2) ! observer"
    by simp
  have "PerceptionSystem_Update s = fold perceive_observer [Suc observer..<entity_count s] ?s2"
    using assms(1) n0 by (simp add: PerceptionSystem_Update_def Let_def fold_upt_split)
  then show ?thesis using rest v2 by simp
qed

subsection \<open>The cells a query visits\<close>

lemma visited_from_minus_one: "- 1 \<le> a \<Longrightarrow> (0 \<le> a \<or> 100 dvd a) = (0 \<le> (a::int))"
proof -
  assume a: "- 1 \<le> a"
  have "\<not> 100 dvd (- 1 :: int)" by simp
  then have "100 dvd a \<Longrightarrow> 0 \<le> a" using a by (cases "a = - 1") auto
  then show ?thesis by auto
qed

lemma visit_cell_in_world:
  assumes "- 1 \<le> cx" "- 1 \<le> cy"
  shows "(let check_x = c_rem cx 100; check_y = c_rem cy 100
        in if check_x < 0 \<or> check_x \<ge> 100 \<or> check_y < 0 \<or> check_y \<ge> 100
           then [] else [(check_x, check_y)])
      = (if 0 \<le> cx \<and> 0 \<le> cy then [(cx mod 100, cy mod 100)] else [])"
  using c_rem_upper [of cx] c_rem_upper [of cy] c_rem_visited [of cx] c_rem_visited [of cy]
    c_rem_value [of cx] c_rem_value [of cy]
    visited_from_minus_one [OF assms(1)] visited_from_minus_one [OF assms(2)]
  by (auto simp add: Let_def)

lemma neighbor_cells_in_world:
  assumes "0 \<le> gx" "0 \<le> gy"
  shows "neighbor_cells gx gy =
     [(cx mod 100, cy mod 100). cx \<leftarrow> [gx - 1, gx, gx + 1], cy \<leftarrow> [gy - 1, gy, gy + 1],
        0 \<le> cx \<and> 0 \<le> cy]"
  unfolding neighbor_cells_def GRID_SIZE_def using assms by (simp add: visit_cell_in_world)

lemma neighbor_cells_interior:
  assumes "1 \<le> gx" "gx \<le> 98" "1 \<le> gy" "gy \<le> 98"
  shows "neighbor_cells gx gy =
     [(cx, cy). cx \<leftarrow> [gx - 1, gx, gx + 1], cy \<leftarrow> [gy - 1, gy, gy + 1]]"
proof -
  have "0 \<le> gx" "0 \<le> gy" using assms by simp_all
  then show ?thesis
    using assms by (simp add: neighbor_cells_in_world)
qed

lemma query_cells_in_range:
  "c \<in> set (query_cells x y) \<Longrightarrow> 0 \<le> fst c \<and> fst c < 100 \<and> 0 \<le> snd c \<and> snd c < 100"
  by (auto simp add: query_cells_def neighbor_cells_eq split: if_splits)

lemma floor_tenth: "0 \<le> x \<Longrightarrow> x < 10 * real_of_int (n + 1) \<Longrightarrow> 10 * real_of_int n \<le> x
   \<Longrightarrow> static_cast_int (x / CELL_SIZE) = n"
  by (simp add: static_cast_int_def CELL_SIZE_def floor_eq_iff)


lemma candidates_rebuilt:
  "t \<in> set (candidates (rebuild_grid s) observer) \<longleftrightarrow>
     t < entity_count s \<and> is_alive (health s) ! t
     \<and> (cell_index (position_x (transforms s) ! t), cell_index (position_y (transforms s) ! t))
          \<in> set (query_cells (position_x (transforms s) ! observer)
                (position_y (transforms s) ! observer))"
proof -
  have tr: "transforms (rebuild_grid s) = transforms s"
    using rebuild_grid_inputs(1) [of s] by (simp add: perception_inputs_def)
  show ?thesis
    unfolding candidates_def tr
    using query_cells_in_range [of _ "position_x (transforms s) ! observer"
        "position_y (transforms s) ! observer"]
    by (auto simp add: rebuild_grid_cells) (metis fst_conv snd_conv)
qed

lemma cell_index_values: "cell_index 999 = 99" "cell_index 1 = 0" "cell_index 5 = 0"
  by (simp_all add: cell_index_def static_cast_int_def CELL_SIZE_def GRID_SIZE_def c_rem_nonneg)

lemma cell_index_in_world:
  assumes "0 \<le> y"
  shows "cell_index y = \<lfloor>y / 10\<rfloor> mod 100"
  using assms by (simp add: cell_index_def static_cast_int_nonneg GRID_SIZE_def c_rem_nonneg)

lemma edge_cells:
  assumes "0 \<le> y"
  shows "(0, cell_index y) \<in> set (query_cells 999 y)"
    and "(99, cell_index y) \<notin> set (query_cells 1 y)"
proof -
  have gy: "static_cast_int (y / CELL_SIZE) = \<lfloor>y / 10\<rfloor>" "0 \<le> \<lfloor>y / 10\<rfloor>"
    using assms by (simp_all add: static_cast_int_nonneg)
  have g999: "static_cast_int (999 / CELL_SIZE) = 99" and g1: "static_cast_int (1 / CELL_SIZE) = 0"
    by (simp_all add: static_cast_int_def CELL_SIZE_def)
  show "(0, cell_index y) \<in> set (query_cells 999 y)"
    using gy(2) by (simp add: query_cells_def gy(1) g999 neighbor_cells_in_world
        cell_index_in_world [OF assms])
  show "(99, cell_index y) \<notin> set (query_cells 1 y)"
    using gy(2) by (simp add: query_cells_def gy(1) g1 neighbor_cells_in_world)
qed

lemma edge_adjacency:
  assumes "A < entity_count s" "B < entity_count s"
    "is_alive (health s) ! A" "is_alive (health s) ! B"
    "position_x (transforms s) ! A = 999" "position_x (transforms s) ! B = 1"
    "position_y (transforms s) ! A = y" "position_y (transforms s) ! B = y" "0 \<le> y"
  shows "B \<in> set (candidates (rebuild_grid s) A)" "A \<notin> set (candidates (rebuild_grid s) B)"
  using assms edge_cells [OF assms(9)]
  by (simp_all add: candidates_rebuilt cell_index_values)

lemma edge_pair_facts:
  "well_formed edge_pair" "entity_count edge_pair = 2"
  "is_alive (health edge_pair) ! 0" "is_alive (health edge_pair) ! 1"
  "position_x (transforms edge_pair) ! 0 = 999" "position_x (transforms edge_pair) ! 1 = 1"
  "position_y (transforms edge_pair) ! 0 = 5" "position_y (transforms edge_pair) ! 1 = 5"
  by (simp_all add: well_formed_def edge_pair_def GameState_Initialize_def
        GameState_default_def PerceptionComponents_Resize_def NeedsComponents_Resize_def
        ActionComponents_Resize_def HealthComponents_Resize_def StimulusBuffer_Resize_def
        resize_def numeral_2_eq_2)

subsection \<open>Dead entities\<close>

lemma UtilitySystem_entity_dead:
  "\<not> is_alive (health (fst sk)) ! j \<Longrightarrow> UtilitySystem_entity rnd j sk = sk"
  by (simp add: UtilitySystem_entity_def)

lemma NeedsSystem_entity_dead:
  "\<not> is_alive (health (fst sk)) ! j \<Longrightarrow> NeedsSystem_entity rnd dt j sk = sk"
  by (simp add: NeedsSystem_entity_def)

lemma NeedsSystem_entity_other:
  "j \<noteq> i \<Longrightarrow> needs_row (needs (fst (NeedsSystem_entity rnd dt j sk))) i
     = needs_row (needs (fst sk)) i"
  by (simp add: NeedsSystem_entity_def Let_def needs_row_def)

lemma perceive_observer_count_other:
  "j \<noteq> i \<Longrightarrow> visible_entity_count (perception (perceive_observer j s)) ! i
     = visible_entity_count (perception s) ! i"
  by (simp add: perceive_observer_def Let_def fold_perceive_cell_inputs)

lemma UtilitySystem_Update_dead:
  assumes "\<not> is_alive (health (fst sk)) ! d"
  shows "action_row (actions (fst (UtilitySystem_Update rnd sk))) d = action_row (actions (fst sk)) d"
proof -
  let ?P = "\<lambda>sk'. health (fst sk') = health (fst sk)
      \<and> action_row (actions (fst sk')) d = action_row (actions (fst sk)) d"
  have step: "?P (UtilitySystem_entity rnd j sk')" if "?P sk'" for j sk'
  proof (cases "j = d")
    case True
    then have "UtilitySystem_entity rnd j sk' = sk'"
      using that assms by (simp add: UtilitySystem_entity_dead)
    then show ?thesis using that by simp
  next
    case False
    have "health (fst (UtilitySystem_entity rnd j sk')) = health (fst sk')"
      using UtilitySystem_entity_inputs [of rnd j sk'] by (simp add: decision_inputs_def)
    then show ?thesis
      using that False by (simp add: UtilitySystem_entity_other)
  qed
  have "?P (fold (UtilitySystem_entity rnd) [0..<entity_count (fst sk)] sk)"
    by (rule fold_invariant [where P = ?P]) (simp_all add: step)
  then show ?thesis by (simp add: UtilitySystem_Update_def)
qed

lemma KineticSystem_Update_dead:
  assumes "\<not> is_alive (health s) ! d"
  shows "transform_row (transforms (KineticSystem_Update dt s)) d = transform_row (transforms s) d"
proof -
  let ?P = "\<lambda>s'. health s' = health s
      \<and> transform_row (transforms s') d = transform_row (transforms s) d"
  have step: "?P (KineticSystem_entity dt j s')" if "?P s'" for j s'
  proof (cases "j = d")
    case True
    then have "KineticSystem_entity dt j s' = s'"
      using that assms by (simp add: KineticSystem_entity_dead)
    then show ?thesis using that by simp
  next
    case False
    have "health (KineticSystem_entity dt j s') = health s'"
      using KineticSystem_entity_inputs [of dt j s'] by (simp add: kinetic_inputs_def)
    then show ?thesis
      using that False by (simp add: KineticSystem_entity_other)
  qed
  have "?P (fold (KineticSystem_entity dt) [0..<entity_count s] s)"
    by (rule fold_invariant [where P = ?P]) (simp_all add: step)
  then show ?thesis by (simp add: KineticSystem_Update_def)
qed

lemma NeedsSystem_Update_dead:
  assumes "\<not> is_alive (health (fst sk)) ! d"
  shows "needs_row (needs (fst (NeedsSystem_Update rnd dt sk))) d = needs_row (needs (fst sk)) d"
proof -
  let ?P = "\<lambda>sk'. health (fst sk') = health (fst sk)
      \<and> needs_row (needs (fst sk')) d = needs_row (needs (fst sk)) d"
  have step: "?P (NeedsSystem_entity rnd dt j sk')" if "?P sk'" for j sk'
  proof (cases "j = d")
    case True
    then have "NeedsSystem_entity rnd dt j sk' = sk'"
      using that assms by (simp add: NeedsSystem_entity_dead)
    then show ?thesis using that by simp
  next
    case False
    have "health (fst (NeedsSystem_entity rnd dt j sk')) = health (fst sk')"
      using NeedsSystem_entity_inputs [of rnd dt j sk'] by (simp add: drive_inputs_def)
    then show ?thesis
      using that False by (simp add: NeedsSystem_entity_other)
  qed
  have "?P (fold (NeedsSystem_entity rnd dt) [0..<entity_count (fst sk)] sk)"
    by (rule fold_invariant [where P = ?P]) (simp_all add: step)
  then show ?thesis by (simp add: NeedsSystem_Update_def)
qed

lemma PerceptionSystem_Update_dead:
  assumes "\<not> is_alive (health s) ! d"
  shows "visible_entity_count (perception (PerceptionSystem_Update s)) ! d
     = visible_entity_count (perception s) ! d"
proof -
  let ?g = "rebuild_grid s"
  let ?s0 = "?g\<lparr>stimulus_buffer := StimulusBuffer_Clear (stimulus_buffer ?g)\<rparr>"
  let ?P = "\<lambda>s'. health s' = health s
      \<and> visible_entity_count (perception s') ! d = visible_entity_count (perception s) ! d"
  have p0: "?P ?s0"
    using rebuild_grid_inputs(1,2) [of s] by (simp add: perception_inputs_def)
  have step: "?P (perceive_observer j s')" if "?P s'" for j s'
  proof (cases "j = d")
    case True
    then have "perceive_observer j s' = s'"
      using that assms by (simp add: perceive_observer_dead)
    then show ?thesis using that by simp
  next
    case False
    have "health (perceive_observer j s') = health s'"
      using perceive_observer_inputs(1) [of j s'] by (simp add: perception_inputs_def)
    then show ?thesis
      using that False by (simp add: perceive_observer_count_other)
  qed
  have "?P (fold perceive_observer [0..<entity_count ?s0] ?s0)"
  proof (rule fold_invariant [where P = ?P])
    show "?P ?s0" by (rule p0)
  qed (simp add: step)
  then show ?thesis by (simp add: PerceptionSystem_Update_def Let_def rebuild_grid_inputs(2))
qed

lemma PerceptionSystem_Update_no_dead:
  assumes "well_formed s" "observer < entity_count s" "\<not> is_alive (health s) ! d"
  shows "d \<notin> set (visible_entities (stimulus_buffer (PerceptionSystem_Update s)) ! observer)"
proof -
  have len: "length (visible_entities (stimulus_buffer s)) = entity_count s"
    using assms(1) by (simp add: well_formed_def)
  show ?thesis
    using PerceptionSystem_Update_visible [OF assms(2) len] assms(3)
    by (simp add: seen_def)
qed

lemma Frame_stimulus:
  "stimulus_buffer (fst (Frame rnd dt sk)) = stimulus_buffer (PerceptionSystem_Update (fst sk))"
  by (simp add: Frame_def Let_def NeedsSystem_Update_frame KineticSystem_Update_frame
      UtilitySystem_Update_frame)

lemma Frame_dead:
  assumes "\<not> is_alive (health (fst sk)) ! d"
  shows "action_row (actions (fst (Frame rnd dt sk))) d = action_row (actions (fst sk)) d"
    and "needs_row (needs (fst (Frame rnd dt sk))) d = needs_row (needs (fst sk)) d"
    and "transform_row (transforms (fst (Frame rnd dt sk))) d
          = transform_row (transforms (fst sk)) d"
    and "visible_entity_count (perception (fst (Frame rnd dt sk))) ! d
          = visible_entity_count (perception (fst sk)) ! d"
proof -
  let ?p = "PerceptionSystem_Update (fst sk)"
  let ?u = "UtilitySystem_Update rnd (?p, snd sk)"
  let ?k = "KineticSystem_Update dt (fst ?u)"
  let ?n = "NeedsSystem_Update rnd dt (?k, snd ?u)"
  have f: "Frame rnd dt sk = ?n" by (simp add: Frame_def Let_def)
  have dp: "\<not> is_alive (health ?p) ! d"
    using assms by (simp add: PerceptionSystem_Update_frame)
  have du: "\<not> is_alive (health (fst ?u)) ! d"
    using dp by (simp add: UtilitySystem_Update_frame)
  have dk: "\<not> is_alive (health ?k) ! d"
    using du by (simp add: KineticSystem_Update_frame)
  have "action_row (actions (fst ?n)) d = action_row (actions (fst ?u)) d"
    by (simp add: NeedsSystem_Update_frame KineticSystem_Update_frame)
  also have "\<dots> = action_row (actions ?p) d"
    using UtilitySystem_Update_dead [of "(?p, snd sk)" d rnd] dp by simp
  finally show "action_row (actions (fst (Frame rnd dt sk))) d = action_row (actions (fst sk)) d"
    by (simp add: f PerceptionSystem_Update_frame)
  have "needs_row (needs (fst ?n)) d = needs_row (needs ?k) d"
    using NeedsSystem_Update_dead [of "(?k, snd ?u)" d rnd dt] dk by simp
  then show "needs_row (needs (fst (Frame rnd dt sk))) d = needs_row (needs (fst sk)) d"
    by (simp add: f KineticSystem_Update_frame UtilitySystem_Update_frame
        PerceptionSystem_Update_frame)
  have "transform_row (transforms (fst ?n)) d = transform_row (transforms ?k) d"
    by (simp add: NeedsSystem_Update_frame)
  also have "\<dots> = transform_row (transforms (fst ?u)) d"
    using du by (rule KineticSystem_Update_dead)
  finally show "transform_row (transforms (fst (Frame rnd dt sk))) d
      = transform_row (transforms (fst sk)) d"
    by (simp add: f UtilitySystem_Update_frame PerceptionSystem_Update_frame)
  have "visible_entity_count (perception (fst ?n)) ! d = visible_entity_count (perception ?p) ! d"
    by (simp add: NeedsSystem_Update_frame KineticSystem_Update_frame UtilitySystem_Update_frame)
  then show "visible_entity_count (perception (fst (Frame rnd dt sk))) ! d
      = visible_entity_count (perception (fst sk)) ! d"
    using PerceptionSystem_Update_dead [OF assms] by (simp add: f)
qed

lemma run_frames_dead:
  assumes "\<not> is_alive (health (fst sk)) ! d"
  shows "action_row (actions (fst (run_frames rnd dt n sk))) d = action_row (actions (fst sk)) d
    \<and> needs_row (needs (fst (run_frames rnd dt n sk))) d = needs_row (needs (fst sk)) d
    \<and> transform_row (transforms (fst (run_frames rnd dt n sk))) d
        = transform_row (transforms (fst sk)) d
    \<and> visible_entity_count (perception (fst (run_frames rnd dt n sk))) ! d
        = visible_entity_count (perception (fst sk)) ! d"
proof (induction n)
  case 0
  show ?case by simp
next
  case (Suc n)
  have "\<not> is_alive (health (fst (run_frames rnd dt n sk))) ! d"
    using assms by (simp add: run_frames_frame)
  then show ?case
    using Suc.IH by (simp add: Frame_dead)
qed

lemma live_and_dead_facts:
  "well_formed live_and_dead" "entity_count live_and_dead = 2"
  "\<not> is_alive (health live_and_dead) ! 1"
  by (simp_all add: well_formed_def live_and_dead_def Let_def GameState_Initialize_def
        GameState_default_def TransformComponents_Resize_def PerceptionComponents_Resize_def
        NeedsComponents_Resize_def ActionComponents_Resize_def HealthComponents_Resize_def
        StimulusBuffer_Resize_def resize_def)

subsection \<open>The validator and the driver\<close>

lemma fold_validate_entity:
  "fold (validate_entity state) js valid \<longleftrightarrow>
     valid \<and> (\<forall>i \<in> set js.
        \<not> isnan (position_x (transforms state) ! i) \<and> \<not> isinf (position_x (transforms state) ! i)
        \<and> \<not> isnan (hunger (needs state) ! i)
        \<and> \<not> cfloat_less (hunger (needs state) ! i) (Finite 0)
        \<and> \<not> cfloat_less (Finite 1) (hunger (needs state) ! i))"
  by (induction js arbitrary: valid) (auto simp add: validate_entity_def Let_def)

lemma ValidateState_checks:
  "ValidateState state \<longleftrightarrow>
     TransformComponents_Size (transforms state) = entity_count state
     \<and> PerceptionComponents_Size (perception state) = entity_count state
     \<and> NeedsComponents_Size (needs state) = entity_count state
     \<and> ActionComponents_Size (actions state) = entity_count state
     \<and> (\<forall>i < entity_count state.
        \<not> isnan (position_x (transforms state) ! i) \<and> \<not> isinf (position_x (transforms state) ! i)
        \<and> \<not> isnan (hunger (needs state) ! i)
        \<and> \<not> cfloat_less (hunger (needs state) ! i) (Finite 0)
        \<and> \<not> cfloat_less (Finite 1) (hunger (needs state) ! i))"
  by (auto simp add: ValidateState_def Let_def fold_validate_entity)

lemma main_loop_fatal:
  "\<not> ValidateState (as_cfloat (fst (Frame rnd DELTA_TIME sk)))
   \<Longrightarrow> main_loop rnd frame (Suc remaining) sk
       = ValidationFailed frame (fst (Frame rnd DELTA_TIME sk))"
  by (simp add: Let_def)

lemma sound_snapshot_facts:
  "entity_count sound_snapshot = 1"
  "position_x (transforms sound_snapshot) = [Finite 0]"
  "hunger (needs sound_snapshot) = [Finite (1 / 2)]"
  "length (view_range (perception sound_snapshot)) = 1"
  "length (current_action (actions sound_snapshot)) = 1"
  by (simp_all add: sound_snapshot_def as_cfloat_def lone_agent_def GameState_Initialize_def
      GameState_default_def TransformComponents_Resize_def PerceptionComponents_Resize_def
      ActionComponents_Resize_def resize_def)

section \<open>The claims\<close>

text \<open>
  Claim C3, as amended. For a live agent \<open>i\<close> of a well-formed state, the decision
  stage writes the action chosen by the chain of strict comparisons. With hunger 1 and
  energy 0 the eat and sleep scores are both 1 and sleep is never chosen; the agent eats
  unless its flee score \<open>1.5 \<times> (1 - safety)\<^sup>3\<close> exceeds 1, and then it flees. In general
  the first action in the order eat, sleep, flee, explore, attack whose score is maximal
  and strictly positive wins, and idle with score 0 remains when no score is positive.
\<close>

theorem decision_tie_break:
  fixes s :: "real GameState" and i :: EntityID and rnd :: "nat \<Rightarrow> nat" and k :: nat
  assumes "well_formed s" "i < entity_count s" "is_alive (health s) ! i"
  defines "act \<equiv> current_action (actions (fst (UtilitySystem_Update rnd (s, k)))) ! i"
    and "score \<equiv> action_utility (actions (fst (UtilitySystem_Update rnd (s, k)))) ! i"
    and "e \<equiv> CalculateEatUtility s i" and "sl \<equiv> CalculateSleepUtility s i"
    and "f \<equiv> CalculateFleeUtility s i" and "x \<equiv> CalculateExploreUtility s i"
    and "a \<equiv> CalculateAttackUtility s i"
  shows "(hunger (needs s) ! i = 1 \<and> energy (needs s) ! i = 0 \<longrightarrow>
            e = 1 \<and> sl = 1 \<and> act \<noteq> SLEEP \<and> act = (if f > 1 then FLEE else EAT))
       \<and> (e \<le> 0 \<and> sl \<le> 0 \<and> f \<le> 0 \<and> x \<le> 0 \<and> a \<le> 0 \<longrightarrow> act = IDLE \<and> score = 0)
       \<and> (0 < e \<and> sl \<le> e \<and> f \<le> e \<and> x \<le> e \<and> a \<le> e \<longrightarrow> act = EAT \<and> score = e)
       \<and> (0 < sl \<and> e < sl \<and> f \<le> sl \<and> x \<le> sl \<and> a \<le> sl \<longrightarrow> act = SLEEP \<and> score = sl)
       \<and> (0 < f \<and> e < f \<and> sl < f \<and> x \<le> f \<and> a \<le> f \<longrightarrow> act = FLEE \<and> score = f)
       \<and> (0 < x \<and> e < x \<and> sl < x \<and> f < x \<and> a \<le> x \<longrightarrow> act = EXPLORE \<and> score = x)
       \<and> (0 < a \<and> e < a \<and> sl < a \<and> f < a \<and> x < a \<longrightarrow> act = ATTACK \<and> score = a)"
proof -
  have act: "act = snd (select_action e sl f x a)"
    and score: "score = fst (select_action e sl f x a)"
    unfolding act_def score_def e_def sl_def f_def x_def a_def
    using UtilitySystem_Update_decision [OF assms(1-3)] by (simp_all add: decide_def)
  have first: "hunger (needs s) ! i = 1 \<and> energy (needs s) ! i = 0 \<longrightarrow>
            e = 1 \<and> sl = 1 \<and> act \<noteq> SLEEP \<and> act = (if f > 1 then FLEE else EAT)"
  proof
    assume h: "hunger (needs s) ! i = 1 \<and> energy (needs s) ! i = 0"
    then have "snd (decide s i) = (if f > 1 then FLEE else EAT)"
      unfolding f_def using starving_exhausted by blast
    moreover have "act = snd (decide s i)"
      unfolding act_def using UtilitySystem_Update_decision(1) [OF assms(1-3)] by simp
    moreover have "e = 1" "sl = 1"
      using h unfolding e_def sl_def
      by (simp_all add: CalculateEatUtility_def CalculateSleepUtility_def QuadraticCurve_def)
    ultimately show "e = 1 \<and> sl = 1 \<and> act \<noteq> SLEEP \<and> act = (if f > 1 then FLEE else EAT)"
      by simp
  qed
  have c_idle: "e \<le> 0 \<and> sl \<le> 0 \<and> f \<le> 0 \<and> x \<le> 0 \<and> a \<le> 0 \<longrightarrow> act = IDLE \<and> score = 0"
    unfolding act score by (simp add: sel_idle)
  have c_eat: "0 < e \<and> sl \<le> e \<and> f \<le> e \<and> x \<le> e \<and> a \<le> e \<longrightarrow> act = EAT \<and> score = e"
    unfolding act score by (simp add: sel_eat)
  have c_sleep: "0 < sl \<and> e < sl \<and> f \<le> sl \<and> x \<le> sl \<and> a \<le> sl \<longrightarrow> act = SLEEP \<and> score = sl"
    unfolding act score by (simp add: sel_sleep)
  have c_flee: "0 < f \<and> e < f \<and> sl < f \<and> x \<le> f \<and> a \<le> f \<longrightarrow> act = FLEE \<and> score = f"
    unfolding act score by (simp add: sel_flee)
  have c_explore: "0 < x \<and> e < x \<and> sl < x \<and> f < x \<and> a \<le> x \<longrightarrow> act = EXPLORE \<and> score = x"
    unfolding act score by (simp add: sel_explore)
  have c_attack: "0 < a \<and> e < a \<and> sl < a \<and> f < a \<and> x < a \<longrightarrow> act = ATTACK \<and> score = a"
    unfolding act score by (simp add: sel_attack)
  show ?thesis
    by (intro conjI first c_idle c_eat c_sleep c_flee c_explore c_attack)
qed

text \<open>
  Witness for C3: a lone live agent with hunger 1, energy 0 and safety 1 eats.
\<close>

theorem decision_tie_break_witness:
  "well_formed (lone_agent 1 0 1 0) \<and> 0 < entity_count (lone_agent 1 0 1 0)
   \<and> is_alive (health (lone_agent 1 0 1 0)) ! 0
   \<and> hunger (needs (lone_agent 1 0 1 0)) ! 0 = 1 \<and> energy (needs (lone_agent 1 0 1 0)) ! 0 = 0
   \<and> current_action (actions (fst (UtilitySystem_Update (\<lambda>n. 0) (lone_agent 1 0 1 0, 0)))) ! 0 = EAT"
proof -
  have wf: "well_formed (lone_agent 1 0 1 0)"
    by (simp add: well_formed_def lone_agent_def GameState_Initialize_def GameState_default_def
        TransformComponents_Resize_def PerceptionComponents_Resize_def
        ActionComponents_Resize_def HealthComponents_Resize_def StimulusBuffer_Resize_def
        resize_def)
  have n: "0 < entity_count (lone_agent 1 0 1 0)"
    by (simp add: lone_agent_def GameState_Initialize_def)
  have alive: "is_alive (health (lone_agent 1 0 1 0)) ! 0"
    by (simp add: lone_agent_def GameState_Initialize_def GameState_default_def
        HealthComponents_Resize_def resize_def)
  have h: "hunger (needs (lone_agent 1 0 1 0)) ! 0 = 1"
    and e: "energy (needs (lone_agent 1 0 1 0)) ! 0 = 0"
    and f: "CalculateFleeUtility (lone_agent 1 0 1 0) 0 = 0"
    by (simp_all add: lone_agent_def CalculateFleeUtility_def QuadraticCurve_def)
  show ?thesis
    using decision_tie_break [OF wf n alive, of "\<lambda>n. 0" 0] wf n alive h e f by simp
qed

text \<open>
  Counterexample to C3 as stated: a live agent with hunger 1, energy 0 and safety 0 has
  flee score 1.5 and flees; it does not eat.
\<close>

theorem decision_tie_break_counterexample:
  "hunger (needs (lone_agent 1 0 0 0)) ! 0 = 1 \<and> energy (needs (lone_agent 1 0 0 0)) ! 0 = 0
   \<and> is_alive (health (lone_agent 1 0 0 0)) ! 0
   \<and> current_action (actions (fst (UtilitySystem_Update (\<lambda>n. 0) (lone_agent 1 0 0 0, 0)))) ! 0 = FLEE"
proof -
  have wf: "well_formed (lone_agent 1 0 0 0)"
    by (simp add: well_formed_def lone_agent_def GameState_Initialize_def GameState_default_def
        TransformComponents_Resize_def PerceptionComponents_Resize_def
        ActionComponents_Resize_def HealthComponents_Resize_def StimulusBuffer_Resize_def
        resize_def)
  have n: "0 < entity_count (lone_agent 1 0 0 0)"
    by (simp add: lone_agent_def GameState_Initialize_def)
  have alive: "is_alive (health (lone_agent 1 0 0 0)) ! 0"
    by (simp add: lone_agent_def GameState_Initialize_def GameState_default_def
        HealthComponents_Resize_def resize_def)
  have h: "hunger (needs (lone_agent 1 0 0 0)) ! 0 = 1"
    and e: "energy (needs (lone_agent 1 0 0 0)) ! 0 = 0"
    and f: "CalculateFleeUtility (lone_agent 1 0 0 0) 0 = 1.5"
    by (simp_all add: lone_agent_def CalculateFleeUtility_def QuadraticCurve_def)
  have "snd (decide (lone_agent 1 0 0 0) 0) = FLEE"
    using starving_exhausted [OF h e] f by simp
  then show ?thesis
    using UtilitySystem_Update_decision(1) [OF wf n alive, of "\<lambda>n. 0" 0] h e alive by simp
qed

text \<open>
  Claim C10. The decision stage writes only the six actions idle, eat, sleep, flee, explore
  and attack for a live agent. Every action is idle after initialisation, so after any
  number of frames of the main pipeline, and in the state the kinematics stage receives in
  the next frame, no agent carries move-to-target: the target-seeking branch of the
  kinematics stage is entered exactly for attack and explore.
\<close>

theorem decision_never_moves_to_target:
  fixes s :: "real GameState" and rnd rnd' :: "nat \<Rightarrow> nat" and i j k k0 n count :: nat
    and sample :: "nat \<Rightarrow> real \<Rightarrow> real \<Rightarrow> real" and dt :: real
  defines "start \<equiv> InitializeEntities sample count GameState_default"
  defines "before \<equiv> run_frames rnd' dt n (start, k0)"
  defines "decided \<equiv> UtilitySystem_Update rnd' (PerceptionSystem_Update (fst before), snd before)"
  assumes "well_formed s" "i < entity_count s" "is_alive (health s) ! i" "j < count"
  shows "current_action (actions (fst (UtilitySystem_Update rnd (s, k)))) ! i
           \<in> {IDLE, EAT, SLEEP, FLEE, EXPLORE, ATTACK}
       \<and> current_action (actions start) ! j = IDLE
       \<and> current_action (actions (fst before)) ! j \<noteq> MOVE_TO_TARGET
       \<and> current_action (actions (fst decided)) ! j \<noteq> MOVE_TO_TARGET
       \<and> (current_action (actions (fst decided)) ! j = MOVE_TO_TARGET
            \<or> current_action (actions (fst decided)) ! j = ATTACK
            \<or> current_action (actions (fst decided)) ! j = EXPLORE)
          = (current_action (actions (fst decided)) ! j = ATTACK
            \<or> current_action (actions (fst decided)) ! j = EXPLORE)"
proof -
  have one: "current_action (actions (fst (UtilitySystem_Update rnd (s, k)))) ! i
           \<in> {IDLE, EAT, SLEEP, FLEE, EXPLORE, ATTACK}"
    using UtilitySystem_Update_decision(1) [OF assms(4-6), of rnd k]
    by (simp add: decide_def select_action_def Let_def)
  have wf0: "well_formed start" and n0: "entity_count start = count"
    unfolding start_def by (rule InitializeEntities_well_formed, rule InitializeEntities_count)
  have nm0: "no_move_to_target start"
    unfolding start_def by (rule InitializeEntities_no_move)
  have wfb: "well_formed (fst before)" and nb: "entity_count (fst before) = count"
    and nmb: "no_move_to_target (fst before)"
    unfolding before_def
    using wf0 n0 nm0
    by (simp_all add: run_frames_well_formed run_frames_frame run_frames_no_move)
  have b: "current_action (actions (fst before)) ! j \<noteq> MOVE_TO_TARGET"
    using no_move_nth [OF nmb wfb] nb assms(7) by simp
  have wfp: "well_formed (PerceptionSystem_Update (fst before))"
    using wfb by (rule PerceptionSystem_Update_well_formed)
  have nmp: "no_move_to_target (PerceptionSystem_Update (fst before))"
    using nmb by (simp add: no_move_to_target_def PerceptionSystem_Update_frame)
  have wfd: "well_formed (fst decided)" and nmd: "no_move_to_target (fst decided)"
    and nd: "entity_count (fst decided) = count"
    unfolding decided_def
    using UtilitySystem_Update_well_formed [of "(PerceptionSystem_Update (fst before), snd before)" rnd']
      UtilitySystem_Update_no_move [of "(PerceptionSystem_Update (fst before), snd before)" rnd']
      wfp nmp nb
    by (simp_all add: UtilitySystem_Update_frame PerceptionSystem_Update_frame)
  have d: "current_action (actions (fst decided)) ! j \<noteq> MOVE_TO_TARGET"
    using no_move_nth [OF nmd wfd] nd assms(7) by simp
  have idle: "current_action (actions start) ! j = IDLE"
    unfolding start_def using assms(7) by (simp add: InitializeEntities_idle)
  show ?thesis using one idle b d by simp
qed


text \<open>
  Witness for C10: a lone live agent, and one entity run for two frames.
\<close>

theorem decision_never_moves_to_target_witness:
  "well_formed (lone_agent 0 1 1 0) \<and> 0 < entity_count (lone_agent 0 1 1 0)
   \<and> is_alive (health (lone_agent 0 1 1 0)) ! 0 \<and> (0::nat) < 1
   \<and> current_action (actions (fst (UtilitySystem_Update (\<lambda>n. 0) (lone_agent 0 1 1 0, 0)))) ! 0
        \<in> {IDLE, EAT, SLEEP, FLEE, EXPLORE, ATTACK}
   \<and> current_action (actions (fst (run_frames (\<lambda>n. 0) DELTA_TIME 2
          (InitializeEntities (\<lambda>n a b. a) 1 GameState_default, 0)))) ! 0 \<noteq> MOVE_TO_TARGET"
proof -
  have wf: "well_formed (lone_agent 0 1 1 0)" by (rule lone_agent_facts)
  have n: "0 < entity_count (lone_agent 0 1 1 0)" by (simp add: lone_agent_facts)
  have alive: "is_alive (health (lone_agent 0 1 1 0)) ! 0" by (rule lone_agent_facts)
  have j: "(0::nat) < 1" by simp
  show ?thesis
    using wf n alive j
      decision_never_moves_to_target [where rnd = "\<lambda>n. 0" and k = 0 and rnd' = "\<lambda>n. 0"
        and dt = DELTA_TIME and n = 2 and sample = "\<lambda>n a b. a" and ?k0.0 = 0, OF wf n alive j]
    by blast
qed

text \<open>
  Claim C6. When the decision stage selects attack for agent \<open>A\<close> and the first element
  of \<open>A\<close>'s visible set is agent \<open>B\<close>, standing at \<open>(bx, by)\<close> (the claim's
  \<open>(50, 50)\<close>), it sets \<open>A\<close>'s target entity to \<open>B\<close> and its target position to
  \<open>(bx, by)\<close>. The kinematics stage runs on the state the completed decision stage
  returns and leaves the target untouched, wherever it moves \<open>B\<close>.
\<close>

theorem attack_target_snapshot:
  fixes s :: "real GameState" and rnd :: "nat \<Rightarrow> nat" and k A B :: nat and dt bx by' :: real
  defines "decided \<equiv> fst (UtilitySystem_Update rnd (s, k))"
  defines "moved \<equiv> KineticSystem_Update dt decided"
  assumes "well_formed s" "A < entity_count s" "is_alive (health s) ! A"
    and "current_action (actions decided) ! A = ATTACK"
    and "visible_entities (stimulus_buffer s) ! A = B # rest"
    and "position_x (transforms s) ! B = bx" "position_y (transforms s) ! B = by'"
  shows "target_entity (actions decided) ! A = B
       \<and> target_x (actions decided) ! A = bx \<and> target_y (actions decided) ! A = by'
       \<and> target_entity (actions moved) ! A = B
       \<and> target_x (actions moved) ! A = bx \<and> target_y (actions moved) ! A = by'"
proof -
  have dec: "snd (decide s A) = ATTACK"
    using UtilitySystem_Update_decision(1) [OF assms(3-5), of rnd k] assms(6)
    by (simp add: decided_def)
  obtain k' where row: "action_row (actions decided) A
      = action_row (actions (fst (UtilitySystem_entity rnd A (s, k')))) A"
    unfolding decided_def using UtilitySystem_Update_row [OF assms(4)] by blast
  have "action_row (actions decided) A
      = (ATTACK, fst (decide s A), B, bx, by', target_z (actions s) ! A)"
    using row UtilitySystem_entity_attack [OF assms(3-5) dec assms(7), of rnd k'] assms(8,9)
    by simp
  then have d: "target_entity (actions decided) ! A = B"
    "target_x (actions decided) ! A = bx" "target_y (actions decided) ! A = by'"
    by (simp_all add: action_row_def)
  have "actions moved = actions decided"
    unfolding moved_def by (rule KineticSystem_Update_frame)
  then show ?thesis using d by simp
qed

text \<open>
  Witness for C6: the hunter (entity 0) attacks the prey (entity 1) at \<open>(50, 50)\<close>.
\<close>

theorem attack_target_snapshot_witness:
  "well_formed hunter_and_prey \<and> 0 < entity_count hunter_and_prey
   \<and> is_alive (health hunter_and_prey) ! 0
   \<and> current_action (actions (fst (UtilitySystem_Update (\<lambda>n. 0) (hunter_and_prey, 0)))) ! 0 = ATTACK
   \<and> visible_entities (stimulus_buffer hunter_and_prey) ! 0 = [1]
   \<and> position_x (transforms hunter_and_prey) ! 1 = 50
   \<and> position_y (transforms hunter_and_prey) ! 1 = 50
   \<and> target_x (actions (KineticSystem_Update DELTA_TIME
          (fst (UtilitySystem_Update (\<lambda>n. 0) (hunter_and_prey, 0))))) ! 0 = 50
   \<and> target_y (actions (KineticSystem_Update DELTA_TIME
          (fst (UtilitySystem_Update (\<lambda>n. 0) (hunter_and_prey, 0))))) ! 0 = 50"
proof -
  have wf: "well_formed hunter_and_prey" by (rule hunter_and_prey_facts)
  have n: "0 < entity_count hunter_and_prey" by (simp add: hunter_and_prey_facts)
  have alive: "is_alive (health hunter_and_prey) ! 0" by (rule hunter_and_prey_facts)
  have vis: "visible_entities (stimulus_buffer hunter_and_prey) ! 0 = [1]"
    by (rule hunter_and_prey_facts)
  have px: "position_x (transforms hunter_and_prey) ! 1 = 50"
    and py: "position_y (transforms hunter_and_prey) ! 1 = 50"
    by (rule hunter_and_prey_facts)+
  have act: "current_action (actions (fst (UtilitySystem_Update (\<lambda>n. 0) (hunter_and_prey, 0)))) ! 0
      = ATTACK"
    using UtilitySystem_Update_decision(1) [OF wf n alive, of "\<lambda>n. 0" 0]
    by (simp add: hunter_decides_attack)
  show ?thesis
    using wf n alive act vis px py
      attack_target_snapshot [where dt = DELTA_TIME, OF wf n alive act vis px py]
    by blast
qed

text \<open>
  Claim C8. When the decision stage selects explore for a live agent, the target position
  it writes is the agent's current position plus two offsets, one per axis, computed from
  two successive calls of \<open>rand()\<close> as \<open>rand() % 20 - 10\<close>; each offset is an integer
  between \<open>-10\<close> and \<open>9\<close>, hence within \<open>[-10, 10]\<close>.
\<close>

theorem explore_target_offset:
  fixes s :: "real GameState" and rnd :: "nat \<Rightarrow> nat" and k i :: nat
  defines "decided \<equiv> fst (UtilitySystem_Update rnd (s, k))"
  assumes "well_formed s" "i < entity_count s" "is_alive (health s) ! i"
    and "current_action (actions decided) ! i = EXPLORE"
  shows "\<exists>k' ox oy. k \<le> k'
       \<and> ox = int (rnd k' mod 20) - 10 \<and> oy = int (rnd (k' + 1) mod 20) - 10
       \<and> - 10 \<le> ox \<and> ox \<le> 10 \<and> - 10 \<le> oy \<and> oy \<le> 10
       \<and> target_x (actions decided) ! i = position_x (transforms s) ! i + real_of_int ox
       \<and> target_y (actions decided) ! i = position_y (transforms s) ! i + real_of_int oy
       \<and> position_x (transforms decided) ! i = position_x (transforms s) ! i
       \<and> position_y (transforms decided) ! i = position_y (transforms s) ! i"
proof -
  have dec: "snd (decide s i) = EXPLORE"
    using UtilitySystem_Update_decision(1) [OF assms(2-4), of rnd k] assms(5)
    by (simp add: decided_def)
  obtain k' where k': "k \<le> k'" and row: "action_row (actions decided) i
      = action_row (actions (fst (UtilitySystem_entity rnd i (s, k')))) i"
    unfolding decided_def using UtilitySystem_Update_row [OF assms(3)] by blast
  have t: "target_x (actions decided) ! i
        = position_x (transforms s) ! i + real_of_int (int (rnd k' mod 20) - 10)"
      "target_y (actions decided) ! i
        = position_y (transforms s) ! i + real_of_int (int (rnd (k' + 1) mod 20) - 10)"
    using row UtilitySystem_entity_explore [OF assms(2-4) dec, of rnd k']
    by (simp_all add: action_row_def)
  have tr: "transforms decided = transforms s"
    unfolding decided_def using UtilitySystem_Update_frame(2) [of rnd "(s, k)"] by simp
  have b1: "- 10 \<le> int (rnd k' mod 20) - 10 \<and> int (rnd k' mod 20) - 10 \<le> 10"
    using rand_offset_bounds [of "rnd k'"] by linarith
  have b2: "- 10 \<le> int (rnd (k' + 1) mod 20) - 10 \<and> int (rnd (k' + 1) mod 20) - 10 \<le> 10"
    using rand_offset_bounds [of "rnd (k' + 1)"] by linarith
  show ?thesis
    using k' t tr b1 b2 by (intro exI [of _ k'] exI [of _ "int (rnd k' mod 20) - 10"]
        exI [of _ "int (rnd (k' + 1) mod 20) - 10"]) simp
qed

text \<open>
  Witness for C8: a lone agent with curiosity 1 and energy 1 explores.
\<close>

theorem explore_target_offset_witness:
  "well_formed (lone_agent 0 1 1 1) \<and> 0 < entity_count (lone_agent 0 1 1 1)
   \<and> is_alive (health (lone_agent 0 1 1 1)) ! 0
   \<and> current_action (actions (fst (UtilitySystem_Update (\<lambda>n. 7 * n + 3) (lone_agent 0 1 1 1, 0)))) ! 0
        = EXPLORE
   \<and> (\<exists>k' ox oy. 0 \<le> k'
       \<and> ox = int ((7 * k' + 3) mod 20) - 10 \<and> oy = int ((7 * (k' + 1) + 3) mod 20) - 10
       \<and> - 10 \<le> ox \<and> ox \<le> 10 \<and> - 10 \<le> oy \<and> oy \<le> 10
       \<and> target_x (actions (fst (UtilitySystem_Update (\<lambda>n. 7 * n + 3) (lone_agent 0 1 1 1, 0)))) ! 0
           = position_x (transforms (lone_agent 0 1 1 1)) ! 0 + real_of_int ox
       \<and> target_y (actions (fst (UtilitySystem_Update (\<lambda>n. 7 * n + 3) (lone_agent 0 1 1 1, 0)))) ! 0
           = position_y (transforms (lone_agent 0 1 1 1)) ! 0 + real_of_int oy)"
proof -
  have wf: "well_formed (lone_agent 0 1 1 1)" by (rule lone_agent_facts)
  have n: "0 < entity_count (lone_agent 0 1 1 1)" by (simp add: lone_agent_facts)
  have alive: "is_alive (health (lone_agent 0 1 1 1)) ! 0" by (rule lone_agent_facts)
  have act: "current_action (actions (fst (UtilitySystem_Update (\<lambda>n. 7 * n + 3)
      (lone_agent 0 1 1 1, 0)))) ! 0 = EXPLORE"
    using UtilitySystem_Update_decision(1) [OF wf n alive, of "\<lambda>n. 7 * n + 3" 0]
    by (simp add: explorer_decides_explore)
  show ?thesis
    using wf n alive act explore_target_offset [OF wf n alive act]
    by blast
qed

text \<open>
  Claim C2, as amended. For a live agent whose current action is idle or sleep, with
  velocity \<open>(vx, vy)\<close>, one KineticSystem update multiplies the velocity by 0.9 and then
  rescales it to \<open>MAX_SPEED = 5\<close> when the damped speed exceeds 5. The result does not
  depend on \<open>\<Delta>t\<close>: when the damped speed is at most 5 the new velocity is exactly
  \<open>(0.9 \<times> vx, 0.9 \<times> vy)\<close>, and velocity \<open>(10, 0)\<close> is damped to \<open>(9, 0)\<close> and then
  clamped, so the update yields \<open>(5, 0)\<close>.
\<close>

theorem idle_damping_per_call:
  fixes s :: "real GameState" and i :: nat and dt vx vy :: real
  defines "moved \<equiv> KineticSystem_Update dt s"
  assumes "well_formed s" "i < entity_count s" "is_alive (health s) ! i"
    and "current_action (actions s) ! i = IDLE \<or> current_action (actions s) ! i = SLEEP"
    and "velocity_x (transforms s) ! i = vx" "velocity_y (transforms s) ! i = vy"
  shows "(velocity_x (transforms moved) ! i, velocity_y (transforms moved) ! i)
           = damped_velocity vx vy
       \<and> ((vx * 0.9) * (vx * 0.9) + (vy * 0.9) * (vy * 0.9) \<le> 25 \<longrightarrow>
            velocity_x (transforms moved) ! i = vx * 0.9
            \<and> velocity_y (transforms moved) ! i = vy * 0.9)
       \<and> (vx = 10 \<and> vy = 0 \<longrightarrow>
            velocity_x (transforms moved) ! i = 5 \<and> velocity_y (transforms moved) ! i = 0)"
proof -
  have v: "(velocity_x (transforms moved) ! i, velocity_y (transforms moved) ! i)
      = damped_velocity vx vy"
    unfolding moved_def using KineticSystem_Update_idle [OF assms(2-5), of dt] assms(6,7)
    by simp
  have slow: "(vx * 0.9) * (vx * 0.9) + (vy * 0.9) * (vy * 0.9) \<le> 25 \<longrightarrow>
      velocity_x (transforms moved) ! i = vx * 0.9 \<and> velocity_y (transforms moved) ! i = vy * 0.9"
    using v damped_velocity_slow [of vx vy] by auto
  have ten: "vx = 10 \<and> vy = 0 \<longrightarrow>
      velocity_x (transforms moved) ! i = 5 \<and> velocity_y (transforms moved) ! i = 0"
    using v damped_velocity_ten by auto
  show ?thesis by (intro conjI v slow ten)
qed

text \<open>
  Witness for C2: an idle agent with velocity \<open>(5, 0)\<close> leaves the update of
  \<open>\<Delta>t = 0.016\<close> with velocity \<open>(4.5, 0)\<close>.
\<close>

theorem idle_damping_per_call_witness:
  "well_formed (drifter 5 0) \<and> 0 < entity_count (drifter 5 0)
   \<and> is_alive (health (drifter 5 0)) ! 0
   \<and> current_action (actions (drifter 5 0)) ! 0 = IDLE
   \<and> velocity_x (transforms (drifter 5 0)) ! 0 = 5
   \<and> velocity_y (transforms (drifter 5 0)) ! 0 = 0
   \<and> velocity_x (transforms (KineticSystem_Update 0.016 (drifter 5 0))) ! 0 = 4.5
   \<and> velocity_y (transforms (KineticSystem_Update 0.016 (drifter 5 0))) ! 0 = 0"
proof -
  have wf: "well_formed (drifter 5 0)" by (rule drifter_facts)
  have n: "0 < entity_count (drifter 5 0)" by (simp add: drifter_facts)
  have alive: "is_alive (health (drifter 5 0)) ! 0" by (rule drifter_facts)
  have idle: "current_action (actions (drifter 5 0)) ! 0 = IDLE" by (rule drifter_facts)
  have act: "current_action (actions (drifter 5 0)) ! 0 = IDLE
      \<or> current_action (actions (drifter 5 0)) ! 0 = SLEEP"
    using idle by simp
  have vx: "velocity_x (transforms (drifter 5 0)) ! 0 = 5"
    and vy: "velocity_y (transforms (drifter 5 0)) ! 0 = 0"
    by (rule drifter_facts)+
  show ?thesis
    using wf n alive idle vx vy
      idle_damping_per_call [where dt = "0.016", OF wf n alive act vx vy]
    by simp
qed

text \<open>
  Counterexample to C2 as stated: a live idle agent with velocity \<open>(10, 0)\<close> leaves one
  update of \<open>\<Delta>t = 0.016\<close> with velocity \<open>(5, 0)\<close>, not \<open>(9, 0)\<close>.
\<close>

theorem idle_damping_per_call_counterexample:
  "is_alive (health (drifter 10 0)) ! 0
   \<and> current_action (actions (drifter 10 0)) ! 0 = IDLE
   \<and> velocity_x (transforms (drifter 10 0)) ! 0 = 10
   \<and> velocity_y (transforms (drifter 10 0)) ! 0 = 0
   \<and> velocity_x (transforms (KineticSystem_Update 0.016 (drifter 10 0))) ! 0 = 5
   \<and> velocity_x (transforms (KineticSystem_Update 0.016 (drifter 10 0))) ! 0 \<noteq> 9"
proof -
  have wf: "well_formed (drifter 10 0)" by (rule drifter_facts)
  have n: "0 < entity_count (drifter 10 0)" by (simp add: drifter_facts)
  have alive: "is_alive (health (drifter 10 0)) ! 0" by (rule drifter_facts)
  have act: "current_action (actions (drifter 10 0)) ! 0 = IDLE
      \<or> current_action (actions (drifter 10 0)) ! 0 = SLEEP"
    by (simp add: drifter_facts)
  show ?thesis
    using KineticSystem_Update_idle [OF wf n alive act, of "0.016"]
    by (simp add: drifter_facts damped_velocity_ten)
qed

text \<open>
  Claim C1. Start from the state \<open>InitializeEntities\<close> builds, its random draws lying in
  the ranges of their distributions, and run the frame pipeline (perception with grid
  rebuild, decision, kinematics, drives) any number of times with a time step \<open>\<Delta>t \<ge> 0\<close>
  (the driver uses 0.016). Then for every agent \<open>i\<close> hunger, energy, safety and curiosity
  lie in \<open>[0, 1]\<close> and the position lies in \<open>[0, 1000]\<^sup>2\<close> at the end of every frame.
\<close>

theorem needs_and_position_in_range:
  fixes sample :: "nat \<Rightarrow> real \<Rightarrow> real \<Rightarrow> real" and rnd :: "nat \<Rightarrow> nat" and dt :: real
    and count n k i :: nat
  defines "s \<equiv> fst (run_frames rnd dt n (InitializeEntities sample count GameState_default, k))"
  assumes "\<forall>m a b. a < b \<longrightarrow> a \<le> sample m a b \<and> sample m a b < b"
    and "0 \<le> dt" and "i < count"
  shows "entity_count s = count
       \<and> 0 \<le> hunger (needs s) ! i \<and> hunger (needs s) ! i \<le> 1
       \<and> 0 \<le> energy (needs s) ! i \<and> energy (needs s) ! i \<le> 1
       \<and> 0 \<le> safety (needs s) ! i \<and> safety (needs s) ! i \<le> 1
       \<and> 0 \<le> curiosity (needs s) ! i \<and> curiosity (needs s) ! i \<le> 1
       \<and> 0 \<le> position_x (transforms s) ! i \<and> position_x (transforms s) ! i \<le> 1000
       \<and> 0 \<le> position_y (transforms s) ! i \<and> position_y (transforms s) ! i \<le> 1000"
proof -
  let ?s0 = "InitializeEntities sample count GameState_default"
  have wf: "well_formed s"
    unfolding s_def using run_frames_well_formed [of "(?s0, k)" rnd dt n]
    by (simp add: InitializeEntities_well_formed)
  have cnt: "entity_count s = count"
    unfolding s_def by (simp add: run_frames_frame InitializeEntities_count)
  have b: "in_bounds s"
    unfolding s_def
    using run_frames_in_bounds [OF assms(3), of "(?s0, k)" rnd n]
      InitializeEntities_in_bounds [OF assms(2), of count]
    by simp
  have len: "i < length (hunger (needs s))" "i < length (energy (needs s))"
    "i < length (safety (needs s))" "i < length (curiosity (needs s))"
    "i < length (position_x (transforms s))" "i < length (position_y (transforms s))"
    using wf cnt assms(4) by (simp_all add: well_formed_def)
  have "0 \<le> hunger (needs s) ! i \<and> hunger (needs s) ! i \<le> 1"
    "0 \<le> energy (needs s) ! i \<and> energy (needs s) ! i \<le> 1"
    "0 \<le> safety (needs s) ! i \<and> safety (needs s) ! i \<le> 1"
    "0 \<le> curiosity (needs s) ! i \<and> curiosity (needs s) ! i \<le> 1"
    "0 \<le> position_x (transforms s) ! i \<and> position_x (transforms s) ! i \<le> 1000"
    "0 \<le> position_y (transforms s) ! i \<and> position_y (transforms s) ! i \<le> 1000"
    using b len by (simp_all add: in_bounds_def list_all_length)
  then show ?thesis using cnt by simp
qed

text \<open>
  Witness for C1: two entities, every draw at the lower end of its range, three frames at
  the driver's time step.
\<close>

theorem needs_and_position_in_range_witness:
  "(0::real) \<le> DELTA_TIME \<and> (1::nat) < 2
   \<and> 0 \<le> hunger (needs (fst (run_frames (\<lambda>m. 7 * m + 3) DELTA_TIME 3
          (InitializeEntities (\<lambda>m a b. a) 2 GameState_default, 0)))) ! 1
   \<and> hunger (needs (fst (run_frames (\<lambda>m. 7 * m + 3) DELTA_TIME 3
          (InitializeEntities (\<lambda>m a b. a) 2 GameState_default, 0)))) ! 1 \<le> 1
   \<and> position_x (transforms (fst (run_frames (\<lambda>m. 7 * m + 3) DELTA_TIME 3
          (InitializeEntities (\<lambda>m a b. a) 2 GameState_default, 0)))) ! 1 \<le> 1000"
proof -
  have smp: "\<forall>m a b. a < b \<longrightarrow> a \<le> (\<lambda>m a b. a) m a b \<and> (\<lambda>m a b. a) m a b < (b::real)"
    by simp
  have dt: "(0::real) \<le> DELTA_TIME" by (simp add: DELTA_TIME_def)
  have i: "(1::nat) < 2" by simp
  show ?thesis
    using dt i needs_and_position_in_range [where rnd = "\<lambda>m. 7 * m + 3" and n = 3 and k = 0,
        OF smp dt i]
    by simp
qed

text \<open>
  Claim C4, as amended. Let \<open>(gx, gy)\<close> be the cell of the observer position \<open>(x, y)\<close>,
  each coordinate the quotient by the cell size 10 with its fraction dropped. The
  neighbourhood query visits, in loop order, those cells of the 3\<times>3 block
  \<open>gx - 1 .. gx + 1\<close> by \<open>gy - 1 .. gy + 1\<close> whose two coordinates are non-negative or
  multiples of 100, each reduced modulo 100. For a position with non-negative
  coordinates these are the block's cells with non-negative coordinates: coordinate 100
  is visited as cell 0, whereas coordinate \<open>-1\<close> is skipped by the range guard and not
  treated as cell 99. For a position in \<open>[10, 990)\<^sup>2\<close> the visited cells are the whole
  block. The visible set of a live observer is collected from the buckets of the visited
  cells, filtered by the liveness, range and angle tests.
\<close>

theorem neighborhood_query_visits:
  fixes s :: "real GameState" and observer :: nat and x y :: real
  defines "gx \<equiv> static_cast_int (x / CELL_SIZE)" and "gy \<equiv> static_cast_int (y / CELL_SIZE)"
  assumes "well_formed s" "observer < entity_count s" "is_alive (health s) ! observer"
  shows "query_cells x y =
           [(cx mod 100, cy mod 100). cx \<leftarrow> [gx - 1, gx, gx + 1], cy \<leftarrow> [gy - 1, gy, gy + 1],
              (0 \<le> cx \<or> 100 dvd cx) \<and> (0 \<le> cy \<or> 100 dvd cy)]
       \<and> (0 \<le> x \<and> 0 \<le> y \<longrightarrow>
            gx = \<lfloor>x / 10\<rfloor> \<and> gy = \<lfloor>y / 10\<rfloor>
            \<and> query_cells x y =
                [(cx mod 100, cy mod 100). cx \<leftarrow> [gx - 1, gx, gx + 1],
                   cy \<leftarrow> [gy - 1, gy, gy + 1], 0 \<le> cx \<and> 0 \<le> cy])
       \<and> (10 \<le> x \<and> x < 990 \<and> 10 \<le> y \<and> y < 990 \<longrightarrow>
            query_cells x y =
                [(cx, cy). cx \<leftarrow> [gx - 1, gx, gx + 1], cy \<leftarrow> [gy - 1, gy, gy + 1]])
       \<and> visible_entities (stimulus_buffer (PerceptionSystem_Update s)) ! observer =
           filter (seen s observer)
             (concat (map (\<lambda>c. cells (spatial_grid (rebuild_grid s)) (fst c) (snd c))
                (query_cells (position_x (transforms s) ! observer)
                   (position_y (transforms s) ! observer))))"
proof -
  have general: "query_cells x y =
           [(cx mod 100, cy mod 100). cx \<leftarrow> [gx - 1, gx, gx + 1], cy \<leftarrow> [gy - 1, gy, gy + 1],
              (0 \<le> cx \<or> 100 dvd cx) \<and> (0 \<le> cy \<or> 100 dvd cy)]"
    unfolding query_cells_def gx_def gy_def by (rule neighbor_cells_eq)
  have world: "0 \<le> x \<and> 0 \<le> y \<longrightarrow>
            gx = \<lfloor>x / 10\<rfloor> \<and> gy = \<lfloor>y / 10\<rfloor>
            \<and> query_cells x y =
                [(cx mod 100, cy mod 100). cx \<leftarrow> [gx - 1, gx, gx + 1],
                   cy \<leftarrow> [gy - 1, gy, gy + 1], 0 \<le> cx \<and> 0 \<le> cy]"
  proof
    assume a: "0 \<le> x \<and> 0 \<le> y"
    then have g: "gx = \<lfloor>x / 10\<rfloor>" "gy = \<lfloor>y / 10\<rfloor>"
      unfolding gx_def gy_def by (simp_all add: static_cast_int_nonneg)
    have "0 \<le> gx" "0 \<le> gy" using a unfolding g by simp_all
    then have "neighbor_cells gx gy =
        [(cx mod 100, cy mod 100). cx \<leftarrow> [gx - 1, gx, gx + 1],
           cy \<leftarrow> [gy - 1, gy, gy + 1], 0 \<le> cx \<and> 0 \<le> cy]"
      by (rule neighbor_cells_in_world)
    then show "gx = \<lfloor>x / 10\<rfloor> \<and> gy = \<lfloor>y / 10\<rfloor>
        \<and> query_cells x y =
            [(cx mod 100, cy mod 100). cx \<leftarrow> [gx - 1, gx, gx + 1],
               cy \<leftarrow> [gy - 1, gy, gy + 1], 0 \<le> cx \<and> 0 \<le> cy]"
      using g unfolding query_cells_def gx_def gy_def by blast
  qed
  have interior: "10 \<le> x \<and> x < 990 \<and> 10 \<le> y \<and> y < 990 \<longrightarrow>
            query_cells x y =
                [(cx, cy). cx \<leftarrow> [gx - 1, gx, gx + 1], cy \<leftarrow> [gy - 1, gy, gy + 1]]"
  proof
    assume a: "10 \<le> x \<and> x < 990 \<and> 10 \<le> y \<and> y < 990"
    then have g: "gx = \<lfloor>x / 10\<rfloor>" "gy = \<lfloor>y / 10\<rfloor>"
      unfolding gx_def gy_def by (simp_all add: static_cast_int_nonneg)
    have "1 \<le> \<lfloor>x / 10\<rfloor>" "\<lfloor>x / 10\<rfloor> \<le> 98" "1 \<le> \<lfloor>y / 10\<rfloor>" "\<lfloor>y / 10\<rfloor> \<le> 98"
      using a by (simp_all add: le_floor_iff floor_le_iff)
    then have "neighbor_cells gx gy =
        [(cx, cy). cx \<leftarrow> [gx - 1, gx, gx + 1], cy \<leftarrow> [gy - 1, gy, gy + 1]]"
      unfolding g by (rule neighbor_cells_interior)
    then show "query_cells x y =
        [(cx, cy). cx \<leftarrow> [gx - 1, gx, gx + 1], cy \<leftarrow> [gy - 1, gy, gy + 1]]"
      unfolding query_cells_def gx_def gy_def .
  qed
  have len: "length (visible_entities (stimulus_buffer s)) = entity_count s"
    using assms(3) by (simp add: well_formed_def)
  have collects: "visible_entities (stimulus_buffer (PerceptionSystem_Update s)) ! observer =
           filter (seen s observer)
             (concat (map (\<lambda>c. cells (spatial_grid (rebuild_grid s)) (fst c) (snd c))
                (query_cells (position_x (transforms s) ! observer)
                   (position_y (transforms s) ! observer))))"
  proof -
    have tr: "transforms (rebuild_grid s) = transforms s"
      using rebuild_grid_inputs(1) [of s] by (simp add: perception_inputs_def)
    show ?thesis
      using PerceptionSystem_Update_visible [OF assms(4) len] assms(5)
      by (simp add: candidates_def tr)
  qed
  show ?thesis by (intro conjI general world interior collects)
qed


text \<open>
  Witness for C4: entity 0 of the edge pair observes from \<open>(999, 5)\<close>; the query around
  \<open>(995, 5)\<close> visits columns 98, 99 and 0 and rows 0 and 1.
\<close>

theorem neighborhood_query_visits_witness:
  "well_formed edge_pair \<and> 0 < entity_count edge_pair \<and> is_alive (health edge_pair) ! 0
   \<and> (0::real) \<le> 995 \<and> (0::real) \<le> 5
   \<and> query_cells 995 5 = [(98, 0), (98, 1), (99, 0), (99, 1), (0, 0), (0, 1)]
   \<and> visible_entities (stimulus_buffer (PerceptionSystem_Update edge_pair)) ! 0 =
       filter (seen edge_pair 0)
         (concat (map (\<lambda>c. cells (spatial_grid (rebuild_grid edge_pair)) (fst c) (snd c))
            (query_cells (position_x (transforms edge_pair) ! 0)
               (position_y (transforms edge_pair) ! 0))))"
proof -
  have wf: "well_formed edge_pair" by (rule edge_pair_facts)
  have n: "0 < entity_count edge_pair" by (simp add: edge_pair_facts)
  have alive: "is_alive (health edge_pair) ! 0" by (rule edge_pair_facts)
  have g: "static_cast_int (995 / CELL_SIZE) = 99" "static_cast_int (5 / CELL_SIZE) = 0"
    by (simp_all add: static_cast_int_def CELL_SIZE_def)
  note t = neighborhood_query_visits [where x = 995 and y = 5, OF wf n alive]
  have q: "query_cells 995 5 = [(98, 0), (98, 1), (99, 0), (99, 1), (0, 0), (0, 1)]"
    using t [THEN conjunct1] by (simp add: g)
  show ?thesis
    using wf n alive q t [THEN conjunct2, THEN conjunct2, THEN conjunct2] by simp
qed

text \<open>
  Counterexample to C4 as stated: around the position \<open>(5, 5)\<close>, in cell \<open>(0, 0)\<close>, the
  query visits four cells; no cell of column or row 99 is among them.
\<close>

theorem neighborhood_query_visits_counterexample:
  "query_cells 5 5 = [(0, 0), (0, 1), (1, 0), (1, 1)]
   \<and> (99, 0) \<notin> set (query_cells 5 5) \<and> (99, 99) \<notin> set (query_cells 5 5)
   \<and> (0, 99) \<notin> set (query_cells 5 5)"
  by (simp add: query_cells_5_5)

text \<open>
  Claim C5, as amended. With cell size 10 and a grid of 100 cells per axis, let two live
  agents \<open>A\<close> at \<open>x = 999\<close> and \<open>B\<close> at \<open>x = 1\<close> share a coordinate \<open>y \<ge> 0\<close>. \<open>A\<close> lies in
  column 99 and \<open>B\<close> in column 0. The query around \<open>A\<close> reaches column \<open>100 % 100 = 0\<close>,
  so \<open>B\<close> is among \<open>A\<close>'s candidates and enters \<open>A\<close>'s visible set exactly when it passes
  the range and angle test. The query around \<open>B\<close> skips column \<open>-1\<close>, so \<open>A\<close> is not
  among \<open>B\<close>'s candidates and never enters \<open>B\<close>'s visible set.
\<close>

theorem edge_agents_adjacency:
  fixes s :: "real GameState" and A B :: nat and y :: real
  defines "perceived \<equiv> PerceptionSystem_Update s"
  assumes "well_formed s" "A < entity_count s" "B < entity_count s"
    and "is_alive (health s) ! A" "is_alive (health s) ! B"
    and "position_x (transforms s) ! A = 999" "position_x (transforms s) ! B = 1"
    and "position_y (transforms s) ! A = y" "position_y (transforms s) ! B = y" "0 \<le> y"
  shows "cell_index 999 = 99 \<and> cell_index 1 = 0
       \<and> (cell_index 1, cell_index y) \<in> set (query_cells 999 y)
       \<and> (cell_index 999, cell_index y) \<notin> set (query_cells 1 y)
       \<and> B \<in> set (candidates (rebuild_grid s) A)
       \<and> A \<notin> set (candidates (rebuild_grid s) B)
       \<and> (B \<in> set (visible_entities (stimulus_buffer perceived) ! A)) = in_view s A B
       \<and> A \<notin> set (visible_entities (stimulus_buffer perceived) ! B)"
proof -
  have len: "length (visible_entities (stimulus_buffer s)) = entity_count s"
    using assms(2) by (simp add: well_formed_def)
  have ne: "B \<noteq> A" using assms(7,8) by auto
  have cand: "B \<in> set (candidates (rebuild_grid s) A)" "A \<notin> set (candidates (rebuild_grid s) B)"
    using edge_adjacency [OF assms(3-11)] by simp_all
  have visA: "visible_entities (stimulus_buffer perceived) ! A
      = filter (seen s A) (candidates (rebuild_grid s) A)"
    unfolding perceived_def
    using PerceptionSystem_Update_visible [OF assms(3) len] assms(5) by simp
  have visB: "visible_entities (stimulus_buffer perceived) ! B
      = filter (seen s B) (candidates (rebuild_grid s) B)"
    unfolding perceived_def
    using PerceptionSystem_Update_visible [OF assms(4) len] assms(6) by simp
  have a: "(B \<in> set (visible_entities (stimulus_buffer perceived) ! A)) = in_view s A B"
    using cand(1) ne assms(6) by (simp add: visA seen_def)
  have b: "A \<notin> set (visible_entities (stimulus_buffer perceived) ! B)"
    using cand(2) by (simp add: visB)
  show ?thesis
    using cand a b edge_cells [OF assms(11)] by (simp add: cell_index_values)
qed

text \<open>
  Witness for C5: the edge pair, entity 0 at \<open>(999, 5)\<close> and entity 1 at \<open>(1, 5)\<close>.
\<close>

theorem edge_agents_adjacency_witness:
  "well_formed edge_pair \<and> 0 < entity_count edge_pair \<and> 1 < entity_count edge_pair
   \<and> is_alive (health edge_pair) ! 0 \<and> is_alive (health edge_pair) ! 1
   \<and> position_x (transforms edge_pair) ! 0 = 999 \<and> position_x (transforms edge_pair) ! 1 = 1
   \<and> position_y (transforms edge_pair) ! 0 = 5 \<and> position_y (transforms edge_pair) ! 1 = 5
   \<and> (0::real) \<le> 5
   \<and> 0 \<notin> set (candidates (rebuild_grid edge_pair) 1)
   \<and> 0 \<notin> set (visible_entities (stimulus_buffer (PerceptionSystem_Update edge_pair)) ! 1)"
proof -
  have wf: "well_formed edge_pair" by (rule edge_pair_facts)
  have a: "0 < entity_count edge_pair" and b: "1 < entity_count edge_pair"
    by (simp_all add: edge_pair_facts)
  have la: "is_alive (health edge_pair) ! 0" and lb: "is_alive (health edge_pair) ! 1"
    by (rule edge_pair_facts)+
  have xa: "position_x (transforms edge_pair) ! 0 = 999"
    and xb: "position_x (transforms edge_pair) ! 1 = 1"
    and ya: "position_y (transforms edge_pair) ! 0 = 5"
    and yb: "position_y (transforms edge_pair) ! 1 = 5"
    by (rule edge_pair_facts)+
  have y: "(0::real) \<le> 5" by simp
  show ?thesis
    using wf a b la lb xa xb ya yb
      edge_agents_adjacency [OF wf a b la lb xa xb ya yb y]
    by simp
qed

text \<open>
  Counterexample to C5 as stated: in the edge pair the cell of the agent at \<open>x = 1\<close> is
  within the block queried around the agent at \<open>x = 999\<close>, and the rebuilt grid returns
  that agent as a candidate.
\<close>

theorem edge_agents_adjacency_counterexample:
  "is_alive (health edge_pair) ! 0 \<and> is_alive (health edge_pair) ! 1
   \<and> position_x (transforms edge_pair) ! 0 = 999 \<and> position_x (transforms edge_pair) ! 1 = 1
   \<and> position_y (transforms edge_pair) ! 0 = 5 \<and> position_y (transforms edge_pair) ! 1 = 5
   \<and> (cell_index 1, cell_index 5) \<in> set (query_cells 999 5)
   \<and> 1 \<in> set (candidates (rebuild_grid edge_pair) 0)"
proof -
  have a: "0 < entity_count edge_pair" and b: "1 < entity_count edge_pair"
    by (simp_all add: edge_pair_facts)
  have y: "(0::real) \<le> 5" by simp
  have c: "1 \<in> set (candidates (rebuild_grid edge_pair) 0)"
    using edge_adjacency(1) [OF a b edge_pair_facts(3-8) y] .
  have q: "(cell_index 1, cell_index 5) \<in> set (query_cells 999 5)"
    using edge_cells(1) [OF y] by (simp only: cell_index_values)
  show ?thesis by (intro conjI edge_pair_facts(3-8) q c)
qed

text \<open>
  Claim C7. Let agent \<open>d\<close> be dead in a well-formed state. After every frame \<open>d\<close>
  appears in no agent's visible set, it is still dead, and its action row (current
  action, utility, target), its needs, its transform and its visible count are the values
  it had at the start: none of the four stages writes them. The same holds for each
  stage's own pass over the action row and the needs.
\<close>

theorem dead_agent_excluded:
  fixes s :: "real GameState" and rnd :: "nat \<Rightarrow> nat" and dt :: real and k n d observer :: nat
  defines "after \<equiv> fst (run_frames rnd dt (Suc n) (s, k))"
  assumes "well_formed s" "d < entity_count s" "\<not> is_alive (health s) ! d"
    and "observer < entity_count s"
  shows "d \<notin> set (visible_entities (stimulus_buffer after) ! observer)
       \<and> \<not> is_alive (health after) ! d
       \<and> action_row (actions after) d = action_row (actions s) d
       \<and> needs_row (needs after) d = needs_row (needs s) d
       \<and> transform_row (transforms after) d = transform_row (transforms s) d
       \<and> visible_entity_count (perception after) ! d = visible_entity_count (perception s) ! d
       \<and> d \<notin> set (visible_entities (stimulus_buffer (PerceptionSystem_Update s)) ! observer)
       \<and> actions (PerceptionSystem_Update s) = actions s
       \<and> needs (PerceptionSystem_Update s) = needs s
       \<and> action_row (actions (fst (UtilitySystem_Update rnd (s, k)))) d = action_row (actions s) d
       \<and> needs (fst (UtilitySystem_Update rnd (s, k))) = needs s
       \<and> actions (KineticSystem_Update dt s) = actions s
       \<and> needs (KineticSystem_Update dt s) = needs s
       \<and> actions (fst (NeedsSystem_Update rnd dt (s, k))) = actions s
       \<and> needs_row (needs (fst (NeedsSystem_Update rnd dt (s, k)))) d = needs_row (needs s) d"
proof -
  let ?b = "run_frames rnd dt n (s, k)"
  have wfb: "well_formed (fst ?b)"
    using assms(2) by (simp add: run_frames_well_formed)
  have nb: "entity_count (fst ?b) = entity_count s" and hb: "health (fst ?b) = health s"
    by (simp_all add: run_frames_frame)
  have vis: "d \<notin> set (visible_entities (stimulus_buffer after) ! observer)"
    unfolding after_def
    using PerceptionSystem_Update_no_dead [of "fst ?b" observer d] wfb nb hb assms(4,5)
    by (simp add: Frame_stimulus)
  have dead: "\<not> is_alive (health after) ! d"
    unfolding after_def using assms(4) by (simp add: Frame_frame hb)
  have rows: "action_row (actions after) d = action_row (actions s) d"
    "needs_row (needs after) d = needs_row (needs s) d"
    "transform_row (transforms after) d = transform_row (transforms s) d"
    "visible_entity_count (perception after) ! d = visible_entity_count (perception s) ! d"
    unfolding after_def using run_frames_dead [of "(s, k)" d rnd dt "Suc n"] assms(4)
    by simp_all
  have p: "d \<notin> set (visible_entities (stimulus_buffer (PerceptionSystem_Update s)) ! observer)"
    using assms(2,5,4) by (rule PerceptionSystem_Update_no_dead)
  have u: "action_row (actions (fst (UtilitySystem_Update rnd (s, k)))) d = action_row (actions s) d"
    using UtilitySystem_Update_dead [of "(s, k)" d rnd] assms(4) by simp
  have nd: "needs_row (needs (fst (NeedsSystem_Update rnd dt (s, k)))) d = needs_row (needs s) d"
    using NeedsSystem_Update_dead [of "(s, k)" d rnd dt] assms(4) by simp
  show ?thesis
    using vis dead rows p u nd
    by (simp add: PerceptionSystem_Update_frame UtilitySystem_Update_frame
        KineticSystem_Update_frame NeedsSystem_Update_frame)
qed

text \<open>
  Witness for C7: entity 1 of the live-and-dead pair is dead; entity 0 observes.
\<close>

theorem dead_agent_excluded_witness:
  "well_formed live_and_dead \<and> 1 < entity_count live_and_dead
   \<and> \<not> is_alive (health live_and_dead) ! 1 \<and> 0 < entity_count live_and_dead
   \<and> 1 \<notin> set (visible_entities (stimulus_buffer
        (fst (run_frames (\<lambda>m. m) DELTA_TIME (Suc 2) (live_and_dead, 0)))) ! 0)
   \<and> needs_row (needs (fst (run_frames (\<lambda>m. m) DELTA_TIME (Suc 2) (live_and_dead, 0)))) 1
       = needs_row (needs live_and_dead) 1
   \<and> action_row (actions (fst (run_frames (\<lambda>m. m) DELTA_TIME (Suc 2) (live_and_dead, 0)))) 1
       = action_row (actions live_and_dead) 1"
proof -
  have wf: "well_formed live_and_dead" by (rule live_and_dead_facts)
  have d: "1 < entity_count live_and_dead" and o: "0 < entity_count live_and_dead"
    by (simp_all add: live_and_dead_facts)
  have dead: "\<not> is_alive (health live_and_dead) ! 1" by (rule live_and_dead_facts)
  note t = dead_agent_excluded [where rnd = "\<lambda>m. m" and dt = DELTA_TIME and k = 0 and n = 2,
      OF wf d dead o]
  show ?thesis
    by (intro conjI wf d dead o t [THEN conjunct1]
        t [THEN conjunct2, THEN conjunct2, THEN conjunct2, THEN conjunct1]
        t [THEN conjunct2, THEN conjunct2, THEN conjunct1])
qed

text \<open>
  Claim C9. The state check of the validator accepts a snapshot whose \<open>position_y\<close> is
  NaN, a snapshot whose energy is 1.5, whose safety is NaN and whose curiosity is
  negative, and a snapshot whose health arrays are shorter than the entity count: it
  compares the sizes of the transform, perception, needs and action groups only and
  tests \<open>position_x\<close> and the hunger only.
\<close>

theorem validator_accepts_damaged_snapshots:
  "isnan (position_y (transforms nan_position_y) ! 0) \<and> ValidateState nan_position_y
   \<and> cfloat_less (Finite 1) (energy (needs excess_energy) ! 0)
   \<and> isnan (safety (needs excess_energy) ! 0)
   \<and> cfloat_less (curiosity (needs excess_energy) ! 0) (Finite 0)
   \<and> ValidateState excess_energy
   \<and> HealthComponents_Size (health short_health) = 0 \<and> entity_count short_health = 1
   \<and> ValidateState short_health"
  by (simp add: ValidateState_checks nan_position_y_def excess_energy_def short_health_def
      sound_snapshot_facts TransformComponents_Size_def PerceptionComponents_Size_def
      NeedsComponents_Size_def ActionComponents_Size_def HealthComponents_Size_def)

end
